theory Spec2Isabelle
  imports Complex_Main
begin

section \<open>Python values carried by JSON\<close>

text \<open>
  What \<^verbatim>\<open>response.json()\<close> yields: \<^verbatim>\<open>None\<close>, booleans, integers, floats, strings,
  lists and dictionaries. A finite float is represented by its rational value. A
  dictionary is an association list; the parser keeps one binding per key, and a lookup
  reads the first binding of the key.
\<close>

datatype json =
    JNull
  | JBool bool
  | JInt int
  | JFloat rat
  | JStr string
  | JList "json list"
  | JObj "(string \<times> json) list"

text \<open>Python's truth value of an object, as \<^verbatim>\<open>not x\<close> tests it.\<close>

fun truthy :: "json \<Rightarrow> bool" where
  "truthy JNull = False"
| "truthy (JBool b) = b"
| "truthy (JInt i) = (i \<noteq> 0)"
| "truthy (JFloat x) = (x \<noteq> 0)"
| "truthy (JStr s) = (s \<noteq> [])"
| "truthy (JList xs) = (xs \<noteq> [])"
| "truthy (JObj kvs) = (kvs \<noteq> [])"

text \<open>Python's \<^verbatim>\<open>x == n\<close> for an integer literal \<^verbatim>\<open>n\<close>: numbers compare by value
  (\<^verbatim>\<open>503.0 == 503\<close>, \<^verbatim>\<open>True == 1\<close>), everything else is unequal.\<close>

fun py_eq_int :: "json \<Rightarrow> int \<Rightarrow> bool" where
  "py_eq_int (JInt i) n = (i = n)"
| "py_eq_int (JFloat x) n = (x = of_int n)"
| "py_eq_int (JBool b) n = ((if b then 1 else 0) = n)"
| "py_eq_int JNull n = False"
| "py_eq_int (JStr s) n = False"
| "py_eq_int (JList xs) n = False"
| "py_eq_int (JObj kvs) n = False"

section \<open>Exceptions\<close>

text \<open>
  The client raises plain \<^verbatim>\<open>Exception\<close> objects that differ in their message; each
  raise site is a constructor carrying what the message interpolates. The other
  constructors are the exceptions of the Python operations the client performs.
  \<^item> \<open>TokenRequestFailed status body\<close>: \<^verbatim>\<open>Exception(f"Failed to get access token: {status} {text}")\<close>
  \<^item> \<open>NoTokenReceived\<close>: \<^verbatim>\<open>Exception("No access token received in response")\<close>
  \<^item> \<open>RequestFailed what status body\<close>: \<^verbatim>\<open>Exception(f"Failed to get {what}: {status} {text}")\<close>
  \<^item> \<open>JSONDecodeError\<close>: \<^verbatim>\<open>response.json()\<close> on a body that is not JSON
  \<^item> \<open>AttributeError\<close>: \<^verbatim>\<open>.get\<close> on an object that is not a dictionary
  \<^item> \<open>TypeError\<close>: iterating an object that is not iterable, \<^verbatim>\<open>**\<close> on a non-mapping
  \<^item> \<open>ValidationError\<close>: raised by the record constructors
  \<^item> \<open>ConnectionError\<close>: the transport delivers no response
\<close>

datatype error =
    TokenRequestFailed int string
  | NoTokenReceived
  | RequestFailed string int string
  | JSONDecodeError
  | AttributeError
  | TypeError
  | ValidationError
  | ConnectionError

text \<open>The specification's names for the two kinds of failure the client raises itself.\<close>

fun is_AuthError :: "error \<Rightarrow> bool" where
  "is_AuthError (TokenRequestFailed s b) = True"
| "is_AuthError NoTokenReceived = True"
| "is_AuthError (RequestFailed l s b) = False"
| "is_AuthError JSONDecodeError = False"
| "is_AuthError AttributeError = False"
| "is_AuthError TypeError = False"
| "is_AuthError ValidationError = False"
| "is_AuthError ConnectionError = False"


text \<open>\<^verbatim>\<open>obj.get(key, default)\<close>: only a dictionary has the method.\<close>

fun py_get :: "json \<Rightarrow> string \<Rightarrow> json \<Rightarrow> error + json" where
  "py_get (JObj kvs) k d = Inr (case map_of kvs k of None \<Rightarrow> d | Some v \<Rightarrow> v)"
| "py_get JNull k d = Inl AttributeError"
| "py_get (JBool b) k d = Inl AttributeError"
| "py_get (JInt i) k d = Inl AttributeError"
| "py_get (JFloat x) k d = Inl AttributeError"
| "py_get (JStr s) k d = Inl AttributeError"
| "py_get (JList xs) k d = Inl AttributeError"

text \<open>\<^verbatim>\<open>for item in obj\<close>: a list yields its elements, a dictionary its keys, a string
  its characters; nothing else is iterable.\<close>

fun py_iter :: "json \<Rightarrow> error + json list" where
  "py_iter (JList xs) = Inr xs"
| "py_iter (JObj kvs) = Inr (map (\<lambda>kv. JStr (fst kv)) kvs)"
| "py_iter (JStr s) = Inr (map (\<lambda>ch. JStr [ch]) s)"
| "py_iter JNull = Inl TypeError"
| "py_iter (JBool b) = Inl TypeError"
| "py_iter (JInt i) = Inl TypeError"
| "py_iter (JFloat x) = Inl TypeError"

section \<open>The transport, the clock and the client\<close>

text \<open>
  A response as the client reads it: \<^verbatim>\<open>status_code\<close>, \<^verbatim>\<open>text\<close>, and the outcome of
  \<^verbatim>\<open>json()\<close> (\<open>None\<close> when the body does not parse).
\<close>

record response =
  status_code :: int
  body_text :: string
  body_json :: "json option"

text \<open>
  A request as \<^verbatim>\<open>requests.post\<close> receives it. The \<^verbatim>\<open>Authorization\<close> header is the
  f-string \<^verbatim>\<open>f"Bearer {self.access_token}"\<close>; it is kept as the interpolated object.
\<close>

datatype header_value = Literal string | Bearer json

datatype payload = FormData "(string \<times> string option) list" | JsonBody json

record request =
  url :: string
  headers :: "(string \<times> header_value) list"
  payload :: payload

text \<open>
  Everything outside the process. \<open>pending\<close> are the responses the network will
  deliver, in the order of the requests; \<open>sent\<close> logs the requests made.
  \<open>wall_clock n\<close> is the local wall-clock time, in microseconds, that the \<open>n\<close>-th call of
  \<^verbatim>\<open>datetime.now()\<close> reads, and \<open>clock_reads\<close> counts the calls made.
  \<open>posix_of_local\<close> is the conversion \<^verbatim>\<open>.timestamp()\<close> applies to a naive local time
  (microseconds to microseconds).
\<close>

record world =
  pending :: "response list"
  sent :: "request list"
  wall_clock :: "nat \<Rightarrow> int"
  clock_reads :: nat
  posix_of_local :: "int \<Rightarrow> int"

record client =
  client_id :: "string option"
  client_secret :: "string option"
  base_url :: "string option"
  access_token :: json

text \<open>\<^verbatim>\<open>requests.post\<close>: the request goes out; the next pending response comes back, and
  with none left the transport raises.\<close>

definition http_post :: "request \<Rightarrow> world \<Rightarrow> (error + response) \<times> world" where
  "http_post rq w =
     (case pending w of
        [] \<Rightarrow> (Inl ConnectionError, w\<lparr>sent := sent w @ [rq]\<rparr>)
      | r # rs \<Rightarrow> (Inr r, w\<lparr>pending := rs, sent := sent w @ [rq]\<rparr>))"

definition response_json :: "response \<Rightarrow> error + json" where
  "response_json r = (case body_json r of None \<Rightarrow> Inl JSONDecodeError | Some j \<Rightarrow> Inr j)"

text \<open>\<^verbatim>\<open>datetime.now()\<close>, as microseconds of local wall-clock time.\<close>

definition datetime_now :: "world \<Rightarrow> int \<times> world" where
  "datetime_now w = (wall_clock w (clock_reads w), w\<lparr>clock_reads := Suc (clock_reads w)\<rparr>)"

text \<open>\<^verbatim>\<open>int(d.timestamp())\<close> for a naive local time \<open>d\<close>: convert to POSIX time, then
  truncate the seconds towards zero.\<close>

definition int_timestamp :: "world \<Rightarrow> int \<Rightarrow> int" where
  "int_timestamp w d =
     (let us = posix_of_local w d
      in if 0 \<le> us then us div 1000000 else - ((- us) div 1000000))"

text \<open>\<^verbatim>\<open>timedelta(days=1)\<close> in microseconds.\<close>

definition one_day :: int where
  "one_day = 86400 * 1000000"

text \<open>How an f-string prints an environment value that may be \<^verbatim>\<open>None\<close>.\<close>

fun fmt_opt :: "string option \<Rightarrow> string" where
  "fmt_opt None = ''None''"
| "fmt_opt (Some s) = s"

section \<open>Token handling\<close>

text \<open>\<^verbatim>\<open>Client.get_access_token\<close> (lines 35-64). It reads the credentials and never
  assigns to \<^verbatim>\<open>self\<close>; the client is returned as it was.\<close>

definition token_request :: "client \<Rightarrow> request" where
  "token_request c =
     \<lparr>url = ''https://oidc.bolt.eu/token'',
      headers = [],
      payload = FormData
        [(''client_id'', client_id c),
         (''client_secret'', client_secret c),
         (''grant_type'', Some ''client_credentials''),
         (''scope'', Some ''fleet-integration:api'')]\<rparr>"

definition get_access_token :: "client \<Rightarrow> world \<Rightarrow> (error + json) \<times> client \<times> world" where
  "get_access_token c w =
     (case http_post (token_request c) w of
        (Inl e, w1) \<Rightarrow> (Inl e, c, w1)
      | (Inr r, w1) \<Rightarrow>
          if status_code r \<noteq> 200
          then (Inl (TokenRequestFailed (status_code r) (body_text r)), c, w1)
          else (case response_json r of
                  Inl e \<Rightarrow> (Inl e, c, w1)
                | Inr j \<Rightarrow>
                    (case py_get j ''access_token'' JNull of
                       Inl e \<Rightarrow> (Inl e, c, w1)
                     | Inr token \<Rightarrow>
                         if \<not> truthy token then (Inl NoTokenReceived, c, w1)
                         else (Inr token, c, w1))))"

text \<open>\<^verbatim>\<open>Client._ensure_token\<close> (lines 66-74).\<close>

definition ensure_token :: "client \<Rightarrow> world \<Rightarrow> (error + unit) \<times> client \<times> world" where
  "ensure_token c w =
     (if \<not> truthy (access_token c)
      then (case get_access_token c w of
              (Inl e, c1, w1) \<Rightarrow> (Inl e, c1, w1)
            | (Inr t, c1, w1) \<Rightarrow> (Inr (), c1\<lparr>access_token := t\<rparr>, w1))
      else (Inr (), c, w))"

text \<open>\<^verbatim>\<open>Client.__init__\<close> (lines 28-33); \<open>getenv\<close> is the process environment.\<close>

definition init :: "(string \<Rightarrow> string option) \<Rightarrow> world \<Rightarrow> (error + unit) \<times> client \<times> world" where
  "init getenv w =
     ensure_token
       \<lparr>client_id = getenv ''BOLT_CLIENT_ID'',
        client_secret = getenv ''BOLT_CLIENT_SECRET'',
        base_url = getenv ''BOLT_API_URL'',
        access_token = JNull\<rparr> w"

text \<open>
  \<^verbatim>\<open>Client._refresh_token_if_needed\<close> (lines 76-105). \<open>refresh_try\<close> is the body of the
  \<^verbatim>\<open>try\<close>: \<open>Inr True\<close> when it returns \<^verbatim>\<open>True\<close>, \<open>Inr False\<close> when it ends without
  returning, \<open>Inl e\<close> when a statement of it raises. \<open>refresh_except\<close> is the handler
  \<^verbatim>\<open>except Exception\<close>, which runs in the state the failed \<^verbatim>\<open>try\<close> left. Both fall
  through to the final \<^verbatim>\<open>return False\<close>.
\<close>

definition refresh_try :: "response \<Rightarrow> client \<Rightarrow> world \<Rightarrow> (error + bool) \<times> client \<times> world" where
  "refresh_try r c w =
     (case response_json r of
        Inl e \<Rightarrow> (Inl e, c, w)
      | Inr response_data \<Rightarrow>
          (case (if status_code r = 401 then Inr True
                 else (case py_get response_data ''code'' JNull of
                         Inl e \<Rightarrow> Inl e
                       | Inr code \<Rightarrow> Inr (py_eq_int code 503))) of
             Inl e \<Rightarrow> (Inl e, c, w)
           | Inr False \<Rightarrow> (Inr False, c, w)
           | Inr True \<Rightarrow>
               (case get_access_token c w of
                  (Inl e, c1, w1) \<Rightarrow> (Inl e, c1, w1)
                | (Inr t, c1, w1) \<Rightarrow> (Inr True, c1\<lparr>access_token := t\<rparr>, w1))))"

definition refresh_except :: "response \<Rightarrow> client \<Rightarrow> world \<Rightarrow> (error + bool) \<times> client \<times> world" where
  "refresh_except r c w =
     (if status_code r = 401
      then (case get_access_token c w of
              (Inl e, c1, w1) \<Rightarrow> (Inl e, c1, w1)
            | (Inr t, c1, w1) \<Rightarrow> (Inr True, c1\<lparr>access_token := t\<rparr>, w1))
      else (Inr False, c, w))"

definition refresh_token_if_needed ::
  "response \<Rightarrow> client \<Rightarrow> world \<Rightarrow> (error + bool) \<times> client \<times> world" where
  "refresh_token_if_needed r c w =
     (case refresh_try r c w of
        (Inl e, c1, w1) \<Rightarrow> refresh_except r c1 w1
      | (Inr b, c1, w1) \<Rightarrow> (Inr b, c1, w1))"

section \<open>Record schemas and the resource methods\<close>

text \<open>The classes of \<^verbatim>\<open>bolt_schemas.py\<close>.\<close>

datatype model = OrderStop | OrderPrice | FleetOrder | Vehicle | Driver | FleetStateLog

datatype PortalStatus = active | inactive

text \<open>\<^verbatim>\<open>PortalStatus.value\<close>.\<close>

fun PortalStatus_value :: "PortalStatus \<Rightarrow> string" where
  "PortalStatus_value active = ''active''"
| "PortalStatus_value inactive = ''inactive''"

text \<open>The \<^verbatim>\<open>portal_status\<close> argument: a member of the enumeration, or an object without
  an attribute \<^verbatim>\<open>value\<close> that goes into the JSON body as it is.\<close>

datatype portal_status_arg = EnumMember PortalStatus | RawValue json

text \<open>\<^verbatim>\<open>portal_status.value if hasattr(portal_status, 'value') else portal_status\<close>\<close>

fun portal_status_value :: "portal_status_arg \<Rightarrow> json" where
  "portal_status_value (EnumMember e) = JStr (PortalStatus_value e)"
| "portal_status_value (RawValue v) = v"

text \<open>The defaults of the time window, as every method computes them:
  \<^verbatim>\<open>if start_ts is None: start_ts = int((datetime.now() - timedelta(days=1)).timestamp())\<close> and
  \<^verbatim>\<open>if end_ts is None: end_ts = int(datetime.now().timestamp())\<close>.\<close>

definition default_start_ts :: "int option \<Rightarrow> world \<Rightarrow> int \<times> world" where
  "default_start_ts start_ts w =
     (case start_ts of
        None \<Rightarrow> (case datetime_now w of (d, w1) \<Rightarrow> (int_timestamp w1 (d - one_day), w1))
      | Some s \<Rightarrow> (s, w))"

definition default_end_ts :: "int option \<Rightarrow> world \<Rightarrow> int \<times> world" where
  "default_end_ts end_ts w =
     (case end_ts of
        None \<Rightarrow> (case datetime_now w of (d, w1) \<Rightarrow> (int_timestamp w1 d, w1))
      | Some t \<Rightarrow> (t, w))"

text \<open>
  \<^verbatim>\<open>[Cls(**item) for item in items]\<close>: the records are built in order and the first
  failure ends the comprehension. \<^verbatim>\<open>**item\<close> needs a mapping. The constructor of the
  record classes belongs to the validation library; it is the parameter \<open>mk\<close>.
\<close>

fun construct_each ::
  "(model \<Rightarrow> (string \<times> json) list \<Rightarrow> error + 'r) \<Rightarrow> model \<Rightarrow> json list \<Rightarrow> error + 'r list" where
  "construct_each mk m [] = Inr []"
| "construct_each mk m (item # items) =
     (case (case item of JObj kwargs \<Rightarrow> mk m kwargs | _ \<Rightarrow> Inl TypeError) of
        Inl e \<Rightarrow> Inl e
      | Inr x \<Rightarrow>
          (case construct_each mk m items of
             Inl e \<Rightarrow> Inl e
           | Inr xs \<Rightarrow> Inr (x # xs)))"

text \<open>\<^verbatim>\<open>[Cls(**x) for x in response.json().get("data", {}).get(field, [])]\<close>, the last
  line of every method.\<close>

definition records_of ::
  "(model \<Rightarrow> (string \<times> json) list \<Rightarrow> error + 'r) \<Rightarrow> model \<Rightarrow> string \<Rightarrow> response \<Rightarrow> error + 'r list" where
  "records_of mk m field r =
     (case response_json r of
        Inl e \<Rightarrow> Inl e
      | Inr j \<Rightarrow>
          (case py_get j ''data'' (JObj []) of
             Inl e \<Rightarrow> Inl e
           | Inr d \<Rightarrow>
               (case py_get d field (JList []) of
                  Inl e \<Rightarrow> Inl e
                | Inr xs \<Rightarrow>
                    (case py_iter xs of
                       Inl e \<Rightarrow> Inl e
                     | Inr items \<Rightarrow> construct_each mk m items))))"

text \<open>\<^verbatim>\<open>Client.get_fleet_orders\<close> (lines 107-174).\<close>

definition get_fleet_orders ::
  "(model \<Rightarrow> (string \<times> json) list \<Rightarrow> error + 'r) \<Rightarrow> client \<Rightarrow> world \<Rightarrow>
   int \<Rightarrow> int \<Rightarrow> int list \<Rightarrow> int option \<Rightarrow> int option \<Rightarrow> (error + 'r list) \<times> client \<times> world" where
  "get_fleet_orders mk c w offset limit company_ids start_ts0 end_ts0 =
     (case ensure_token c w of
        (Inl e, c1, w1) \<Rightarrow> (Inl e, c1, w1)
      | (Inr u, c1, w1) \<Rightarrow>
     (case default_start_ts start_ts0 w1 of (start_ts, w2) \<Rightarrow>
     (case default_end_ts end_ts0 w2 of (end_ts, w3) \<Rightarrow>
     (case http_post
            \<lparr>url = fmt_opt (base_url c1) @ ''/getFleetOrders'',
             headers = [(''Content-Type'', Literal ''application/json''),
                        (''Authorization'', Bearer (access_token c1))],
             payload = JsonBody (JObj
               [(''offset'', JInt offset),
                 (''limit'', JInt limit),
                 (''company_ids'', JList (map JInt company_ids)),
                 (''start_ts'', JInt start_ts),
                 (''end_ts'', JInt end_ts),
                 (''time_range_filter_type'', JStr ''price_review'')])\<rparr> w3 of
        (Inl e, w4) \<Rightarrow> (Inl e, c1, w4)
      | (Inr response, w4) \<Rightarrow>
     (case refresh_token_if_needed response c1 w4 of
        (Inl e, c2, w5) \<Rightarrow> (Inl e, c2, w5)
      | (Inr refreshed, c2, w5) \<Rightarrow>
     (case (if refreshed
            then http_post
            \<lparr>url = fmt_opt (base_url c2) @ ''/getFleetOrders'',
             headers = [(''Content-Type'', Literal ''application/json''),
                        (''Authorization'', Bearer (access_token c2))],
             payload = JsonBody (JObj
               [(''offset'', JInt offset),
                 (''limit'', JInt limit),
                 (''company_ids'', JList (map JInt company_ids)),
                 (''start_ts'', JInt start_ts),
                 (''end_ts'', JInt end_ts),
                 (''time_range_filter_type'', JStr ''price_review'')])\<rparr> w5
            else (Inr response, w5)) of
        (Inl e, w6) \<Rightarrow> (Inl e, c2, w6)
      | (Inr response2, w6) \<Rightarrow>
          if status_code response2 \<noteq> 200
          then (Inl (RequestFailed ''fleet orders'' (status_code response2) (body_text response2)), c2, w6)
          else (records_of mk FleetOrder ''orders'' response2, c2, w6)))))))"

text \<open>\<^verbatim>\<open>Client.get_vehicles\<close> (lines 176-248).\<close>

definition get_vehicles ::
  "(model \<Rightarrow> (string \<times> json) list \<Rightarrow> error + 'r) \<Rightarrow> client \<Rightarrow> world \<Rightarrow>
   int \<Rightarrow> int \<Rightarrow> int \<Rightarrow> portal_status_arg \<Rightarrow> int option \<Rightarrow> int option \<Rightarrow> (error + 'r list) \<times> client \<times> world" where
  "get_vehicles mk c w offset limit company_id portal_status start_ts0 end_ts0 =
     (case ensure_token c w of
        (Inl e, c1, w1) \<Rightarrow> (Inl e, c1, w1)
      | (Inr u, c1, w1) \<Rightarrow>
     (case default_start_ts start_ts0 w1 of (start_ts, w2) \<Rightarrow>
     (case default_end_ts end_ts0 w2 of (end_ts, w3) \<Rightarrow>
     (case portal_status_value portal_status of portal_status_value' \<Rightarrow>
     (case http_post
            \<lparr>url = fmt_opt (base_url c1) @ ''/getVehicles'',
             headers = [(''Content-Type'', Literal ''application/json''),
                        (''Authorization'', Bearer (access_token c1))],
             payload = JsonBody (JObj
               [(''offset'', JInt offset),
                 (''limit'', JInt limit),
                 (''company_id'', JInt company_id),
                 (''start_ts'', JInt start_ts),
                 (''end_ts'', JInt end_ts),
                 (''portal_status'', portal_status_value')])\<rparr> w3 of
        (Inl e, w4) \<Rightarrow> (Inl e, c1, w4)
      | (Inr response, w4) \<Rightarrow>
     (case refresh_token_if_needed response c1 w4 of
        (Inl e, c2, w5) \<Rightarrow> (Inl e, c2, w5)
      | (Inr refreshed, c2, w5) \<Rightarrow>
     (case (if refreshed
            then http_post
            \<lparr>url = fmt_opt (base_url c2) @ ''/getVehicles'',
             headers = [(''Content-Type'', Literal ''application/json''),
                        (''Authorization'', Bearer (access_token c2))],
             payload = JsonBody (JObj
               [(''offset'', JInt offset),
                 (''limit'', JInt limit),
                 (''company_id'', JInt company_id),
                 (''start_ts'', JInt start_ts),
                 (''end_ts'', JInt end_ts),
                 (''portal_status'', portal_status_value')])\<rparr> w5
            else (Inr response, w5)) of
        (Inl e, w6) \<Rightarrow> (Inl e, c2, w6)
      | (Inr response2, w6) \<Rightarrow>
          if status_code response2 \<noteq> 200
          then (Inl (RequestFailed ''vehicles'' (status_code response2) (body_text response2)), c2, w6)
          else (records_of mk Vehicle ''vehicles'' response2, c2, w6))))))))"

text \<open>\<^verbatim>\<open>Client.get_drivers\<close> (lines 250-322).\<close>

definition get_drivers ::
  "(model \<Rightarrow> (string \<times> json) list \<Rightarrow> error + 'r) \<Rightarrow> client \<Rightarrow> world \<Rightarrow>
   int \<Rightarrow> int \<Rightarrow> int \<Rightarrow> portal_status_arg \<Rightarrow> int option \<Rightarrow> int option \<Rightarrow> (error + 'r list) \<times> client \<times> world" where
  "get_drivers mk c w offset limit company_id portal_status start_ts0 end_ts0 =
     (case ensure_token c w of
        (Inl e, c1, w1) \<Rightarrow> (Inl e, c1, w1)
      | (Inr u, c1, w1) \<Rightarrow>
     (case default_start_ts start_ts0 w1 of (start_ts, w2) \<Rightarrow>
     (case default_end_ts end_ts0 w2 of (end_ts, w3) \<Rightarrow>
     (case portal_status_value portal_status of portal_status_value' \<Rightarrow>
     (case http_post
            \<lparr>url = fmt_opt (base_url c1) @ ''/getDrivers'',
             headers = [(''Content-Type'', Literal ''application/json''),
                        (''Authorization'', Bearer (access_token c1))],
             payload = JsonBody (JObj
               [(''offset'', JInt offset),
                 (''limit'', JInt limit),
                 (''company_id'', JInt company_id),
                 (''start_ts'', JInt start_ts),
                 (''end_ts'', JInt end_ts),
                 (''portal_status'', portal_status_value')])\<rparr> w3 of
        (Inl e, w4) \<Rightarrow> (Inl e, c1, w4)
      | (Inr response, w4) \<Rightarrow>
     (case refresh_token_if_needed response c1 w4 of
        (Inl e, c2, w5) \<Rightarrow> (Inl e, c2, w5)
      | (Inr refreshed, c2, w5) \<Rightarrow>
     (case (if refreshed
            then http_post
            \<lparr>url = fmt_opt (base_url c2) @ ''/getDrivers'',
             headers = [(''Content-Type'', Literal ''application/json''),
                        (''Authorization'', Bearer (access_token c2))],
             payload = JsonBody (JObj
               [(''offset'', JInt offset),
                 (''limit'', JInt limit),
                 (''company_id'', JInt company_id),
                 (''start_ts'', JInt start_ts),
                 (''end_ts'', JInt end_ts),
                 (''portal_status'', portal_status_value')])\<rparr> w5
            else (Inr response, w5)) of
        (Inl e, w6) \<Rightarrow> (Inl e, c2, w6)
      | (Inr response2, w6) \<Rightarrow>
          if status_code response2 \<noteq> 200
          then (Inl (RequestFailed ''drivers'' (status_code response2) (body_text response2)), c2, w6)
          else (records_of mk Driver ''drivers'' response2, c2, w6))))))))"

text \<open>\<^verbatim>\<open>Client.get_fleet_state_logs\<close> (lines 325-392).\<close>

definition get_fleet_state_logs ::
  "(model \<Rightarrow> (string \<times> json) list \<Rightarrow> error + 'r) \<Rightarrow> client \<Rightarrow> world \<Rightarrow>
   int \<Rightarrow> int \<Rightarrow> int \<Rightarrow> int option \<Rightarrow> int option \<Rightarrow> (error + 'r list) \<times> client \<times> world" where
  "get_fleet_state_logs mk c w offset limit company_id start_ts0 end_ts0 =
     (case ensure_token c w of
        (Inl e, c1, w1) \<Rightarrow> (Inl e, c1, w1)
      | (Inr u, c1, w1) \<Rightarrow>
     (case default_start_ts start_ts0 w1 of (start_ts, w2) \<Rightarrow>
     (case default_end_ts end_ts0 w2 of (end_ts, w3) \<Rightarrow>
     (case http_post
            \<lparr>url = fmt_opt (base_url c1) @ ''/getFleetStateLogs'',
             headers = [(''Content-Type'', Literal ''application/json''),
                        (''Authorization'', Bearer (access_token c1))],
             payload = JsonBody (JObj
               [(''offset'', JInt offset),
                 (''limit'', JInt limit),
                 (''company_id'', JInt company_id),
                 (''start_ts'', JInt start_ts),
                 (''end_ts'', JInt end_ts)])\<rparr> w3 of
        (Inl e, w4) \<Rightarrow> (Inl e, c1, w4)
      | (Inr response, w4) \<Rightarrow>
     (case refresh_token_if_needed response c1 w4 of
        (Inl e, c2, w5) \<Rightarrow> (Inl e, c2, w5)
      | (Inr refreshed, c2, w5) \<Rightarrow>
     (case (if refreshed
            then http_post
            \<lparr>url = fmt_opt (base_url c2) @ ''/getFleetStateLogs'',
             headers = [(''Content-Type'', Literal ''application/json''),
                        (''Authorization'', Bearer (access_token c2))],
             payload = JsonBody (JObj
               [(''offset'', JInt offset),
                 (''limit'', JInt limit),
                 (''company_id'', JInt company_id),
                 (''start_ts'', JInt start_ts),
                 (''end_ts'', JInt end_ts)])\<rparr> w5
            else (Inr response, w5)) of
        (Inl e, w6) \<Rightarrow> (Inl e, c2, w6)
      | (Inr response2, w6) \<Rightarrow>
          if status_code response2 \<noteq> 200
          then (Inl (RequestFailed ''fleet state logs'' (status_code response2) (body_text response2)), c2, w6)
          else (records_of mk FleetStateLog ''state_logs'' response2, c2, w6)))))))"

section \<open>The four methods as one\<close>

text \<open>A call of one of the four resource methods, with its arguments before the time
  window; \<open>invoke\<close> runs it.\<close>

datatype resource_call =
    GetFleetOrders int int "int list"
  | GetVehicles int int int portal_status_arg
  | GetDrivers int int int portal_status_arg
  | GetFleetStateLogs int int int

fun invoke ::
  "(model \<Rightarrow> (string \<times> json) list \<Rightarrow> error + 'r) \<Rightarrow> resource_call \<Rightarrow> client \<Rightarrow> world \<Rightarrow>
   int option \<Rightarrow> int option \<Rightarrow> (error + 'r list) \<times> client \<times> world" where
  "invoke mk (GetFleetOrders offset limit company_ids) c w start_ts end_ts =
     get_fleet_orders mk c w offset limit company_ids start_ts end_ts"
| "invoke mk (GetVehicles offset limit company_id portal_status) c w start_ts end_ts =
     get_vehicles mk c w offset limit company_id portal_status start_ts end_ts"
| "invoke mk (GetDrivers offset limit company_id portal_status) c w start_ts end_ts =
     get_drivers mk c w offset limit company_id portal_status start_ts end_ts"
| "invoke mk (GetFleetStateLogs offset limit company_id) c w start_ts end_ts =
     get_fleet_state_logs mk c w offset limit company_id start_ts end_ts"

text \<open>What differs between the methods: the endpoint, the words of the error message,
  the record class, the list field of the response.\<close>

fun call_path :: "resource_call \<Rightarrow> string" where
  "call_path (GetFleetOrders offset limit company_ids) = ''/getFleetOrders''"
| "call_path (GetVehicles offset limit company_id portal_status) = ''/getVehicles''"
| "call_path (GetDrivers offset limit company_id portal_status) = ''/getDrivers''"
| "call_path (GetFleetStateLogs offset limit company_id) = ''/getFleetStateLogs''"

fun call_what :: "resource_call \<Rightarrow> string" where
  "call_what (GetFleetOrders offset limit company_ids) = ''fleet orders''"
| "call_what (GetVehicles offset limit company_id portal_status) = ''vehicles''"
| "call_what (GetDrivers offset limit company_id portal_status) = ''drivers''"
| "call_what (GetFleetStateLogs offset limit company_id) = ''fleet state logs''"

fun call_model :: "resource_call \<Rightarrow> model" where
  "call_model (GetFleetOrders offset limit company_ids) = FleetOrder"
| "call_model (GetVehicles offset limit company_id portal_status) = Vehicle"
| "call_model (GetDrivers offset limit company_id portal_status) = Driver"
| "call_model (GetFleetStateLogs offset limit company_id) = FleetStateLog"

fun call_field :: "resource_call \<Rightarrow> string" where
  "call_field (GetFleetOrders offset limit company_ids) = ''orders''"
| "call_field (GetVehicles offset limit company_id portal_status) = ''vehicles''"
| "call_field (GetDrivers offset limit company_id portal_status) = ''drivers''"
| "call_field (GetFleetStateLogs offset limit company_id) = ''state_logs''"


definition body_entry :: "request \<Rightarrow> string \<Rightarrow> json option" where
  "body_entry rq k =
     (case payload rq of
        JsonBody (JObj kvs) \<Rightarrow> map_of kvs k
      | _ \<Rightarrow> None)"

text \<open>The requests made during a call: what the log \<open>sent\<close> gained from \<open>w\<close> to \<open>w'\<close>.\<close>

definition requests_during :: "world \<Rightarrow> world \<Rightarrow> request list" where
  "requests_during w w' = drop (length (sent w)) (sent w')"

text \<open>The specification's condition on a response body: it parses as JSON and has a field
  \<^verbatim>\<open>code\<close> equal to 503.\<close>

definition has_code_503 :: "response \<Rightarrow> bool" where
  "has_code_503 r =
     (case body_json r of
        Some (JObj kvs) \<Rightarrow> (case map_of kvs ''code'' of Some v \<Rightarrow> py_eq_int v 503 | None \<Rightarrow> False)
      | _ \<Rightarrow> False)"

text \<open>The token a response of the token endpoint grants: status 200, a JSON object, and
  a true value under \<^verbatim>\<open>access_token\<close>.\<close>

definition granted :: "response \<Rightarrow> json option" where
  "granted r =
     (if status_code r = 200
      then (case body_json r of
              Some (JObj kvs) \<Rightarrow>
                (case map_of kvs ''access_token'' of
                   Some t \<Rightarrow> if truthy t then Some t else None
                 | None \<Rightarrow> None)
            | _ \<Rightarrow> None)
      else None)"

text \<open>The shape the four methods share, as a function of what differs between them.\<close>

definition api_request :: "client \<Rightarrow> string \<Rightarrow> json \<Rightarrow> request" where
  "api_request c path body =
     \<lparr>url = fmt_opt (base_url c) @ path,
      headers = [(''Content-Type'', Literal ''application/json''),
                 (''Authorization'', Bearer (access_token c))],
      payload = JsonBody body\<rparr>"

definition finish ::
  "(model \<Rightarrow> (string \<times> json) list \<Rightarrow> error + 'r) \<Rightarrow> model \<Rightarrow> string \<Rightarrow> string \<Rightarrow> response \<Rightarrow>
   error + 'r list" where
  "finish mk m what field r =
     (if status_code r \<noteq> 200 then Inl (RequestFailed what (status_code r) (body_text r))
      else records_of mk m field r)"

definition resource_template ::
  "(model \<Rightarrow> (string \<times> json) list \<Rightarrow> error + 'r) \<Rightarrow> model \<Rightarrow> string \<Rightarrow> string \<Rightarrow> string \<Rightarrow>
   (int \<Rightarrow> int \<Rightarrow> json) \<Rightarrow> client \<Rightarrow> world \<Rightarrow> int option \<Rightarrow> int option \<Rightarrow>
   (error + 'r list) \<times> client \<times> world" where
  "resource_template mk m path what field body c w start_ts0 end_ts0 =
     (case ensure_token c w of
        (Inl e, c1, w1) \<Rightarrow> (Inl e, c1, w1)
      | (Inr u, c1, w1) \<Rightarrow>
     (case default_start_ts start_ts0 w1 of (start_ts, w2) \<Rightarrow>
     (case default_end_ts end_ts0 w2 of (end_ts, w3) \<Rightarrow>
     (case http_post (api_request c1 path (body start_ts end_ts)) w3 of
        (Inl e, w4) \<Rightarrow> (Inl e, c1, w4)
      | (Inr response, w4) \<Rightarrow>
     (case refresh_token_if_needed response c1 w4 of
        (Inl e, c2, w5) \<Rightarrow> (Inl e, c2, w5)
      | (Inr refreshed, c2, w5) \<Rightarrow>
     (case (if refreshed then http_post (api_request c2 path (body start_ts end_ts)) w5
            else (Inr response, w5)) of
        (Inl e, w6) \<Rightarrow> (Inl e, c2, w6)
      | (Inr response2, w6) \<Rightarrow> (finish mk m what field response2, c2, w6)))))))"

fun call_body :: "resource_call \<Rightarrow> int \<Rightarrow> int \<Rightarrow> json" where
  "call_body (GetFleetOrders offset limit company_ids) start_ts end_ts =
     JObj [(''offset'', JInt offset), (''limit'', JInt limit),
           (''company_ids'', JList (map JInt company_ids)),
           (''start_ts'', JInt start_ts), (''end_ts'', JInt end_ts),
           (''time_range_filter_type'', JStr ''price_review'')]"
| "call_body (GetVehicles offset limit company_id portal_status) start_ts end_ts =
     JObj [(''offset'', JInt offset), (''limit'', JInt limit), (''company_id'', JInt company_id),
           (''start_ts'', JInt start_ts), (''end_ts'', JInt end_ts),
           (''portal_status'', portal_status_value portal_status)]"
| "call_body (GetDrivers offset limit company_id portal_status) start_ts end_ts =
     JObj [(''offset'', JInt offset), (''limit'', JInt limit), (''company_id'', JInt company_id),
           (''start_ts'', JInt start_ts), (''end_ts'', JInt end_ts),
           (''portal_status'', portal_status_value portal_status)]"
| "call_body (GetFleetStateLogs offset limit company_id) start_ts end_ts =
     JObj [(''offset'', JInt offset), (''limit'', JInt limit), (''company_id'', JInt company_id),
           (''start_ts'', JInt start_ts), (''end_ts'', JInt end_ts)]"

text \<open>The time window a call computes in the world \<open>w\<close>, and the world once both defaults
  are computed.\<close>

definition window_start :: "int option \<Rightarrow> world \<Rightarrow> int" where
  "window_start s0 w = fst (default_start_ts s0 w)"

definition window_end :: "int option \<Rightarrow> int option \<Rightarrow> world \<Rightarrow> int" where
  "window_end s0 e0 w = fst (default_end_ts e0 (snd (default_start_ts s0 w)))"

definition after_window :: "int option \<Rightarrow> int option \<Rightarrow> world \<Rightarrow> world" where
  "after_window s0 e0 w = snd (default_end_ts e0 (snd (default_start_ts s0 w)))"

text \<open>A token that is a non-empty string; a world whose pending responses grant strings
  only.\<close>

fun nonempty_string :: "json \<Rightarrow> bool" where
  "nonempty_string (JStr s) = (s \<noteq> [])"
| "nonempty_string JNull = False"
| "nonempty_string (JBool b) = False"
| "nonempty_string (JInt i) = False"
| "nonempty_string (JFloat x) = False"
| "nonempty_string (JList xs) = False"
| "nonempty_string (JObj kvs) = False"

definition grants_strings :: "response \<Rightarrow> bool" where
  "grants_strings g = (case granted g of None \<Rightarrow> True | Some t \<Rightarrow> nonempty_string t)"

text \<open>How the client \<open>c'\<close> after an operation relates to the client \<open>c\<close> before it in
  the world \<open>w\<close>: nothing changed, or the token alone was replaced by one that a pending
  response of \<open>w\<close> grants.\<close>

definition kept_or_granted :: "client \<Rightarrow> world \<Rightarrow> client \<Rightarrow> bool" where
  "kept_or_granted c w c' =
     (c' = c \<or>
      list_ex (\<lambda>g. case granted g of None \<Rightarrow> False | Some t \<Rightarrow> c' = c\<lparr>access_token := t\<rparr>)
        (pending w))"

section \<open>Constructing records\<close>

text \<open>
  The declarations of \<^verbatim>\<open>bolt_schemas.py\<close>: per class the fields in order, each with its
  declared type and whether it is required. A field declared \<^verbatim>\<open>name: T\<close> is required;
  a field declared \<^verbatim>\<open>name: Optional[T] = None\<close> is not, and may hold \<^verbatim>\<open>None\<close>.
\<close>

datatype scalar = TInt | TStr | TFloat | TBool | TUUID | TPortalStatus

datatype ftype = Scalar scalar | Nested model | ListOf model

fun fields :: "model \<Rightarrow> (string \<times> ftype \<times> bool) list" where
  "fields OrderStop =
     [(''lat'', Scalar TFloat, False),
      (''lng'', Scalar TFloat, False),
      (''real_lat'', Scalar TFloat, False),
      (''real_lng'', Scalar TFloat, False),
      (''type'', Scalar TStr, False)]"
| "fields OrderPrice =
     [(''booking_fee'', Scalar TFloat, False),
      (''cancellation_fee'', Scalar TFloat, False),
      (''cash_discount'', Scalar TFloat, False),
      (''net_earnings'', Scalar TFloat, False),
      (''tip'', Scalar TFloat, False),
      (''commission'', Scalar TFloat, False),
      (''in_app_discount'', Scalar TFloat, False),
      (''toll_fee'', Scalar TFloat, False),
      (''ride_price'', Scalar TFloat, False)]"
| "fields FleetOrder =
     [(''order_reference'', Scalar TStr, False),
      (''driver_name'', Scalar TStr, False),
      (''payment_method'', Scalar TStr, False),
      (''driver_uuid'', Scalar TStr, False),
      (''driver_phone'', Scalar TStr, False),
      (''partner_uuid'', Scalar TStr, False),
      (''payment_confirmed_timestamp'', Scalar TInt, False),
      (''order_created_timestamp'', Scalar TInt, False),
      (''order_status'', Scalar TStr, False),
      (''vehicle_model'', Scalar TStr, False),
      (''vehicle_license_plate'', Scalar TStr, False),
      (''price_review_reason'', Scalar TStr, False),
      (''pickup_address'', Scalar TStr, False),
      (''ride_distance'', Scalar TFloat, False),
      (''order_accepted_timestamp'', Scalar TInt, False),
      (''order_pickup_timestamp'', Scalar TInt, False),
      (''order_drop_off_timestamp'', Scalar TInt, False),
      (''order_finished_timestamp'', Scalar TInt, False),
      (''order_stops'', ListOf OrderStop, False),
      (''order_price'', Nested OrderPrice, False)]"
| "fields Vehicle =
     [(''id'', Scalar TInt, True),
      (''model'', Scalar TStr, True),
      (''year'', Scalar TInt, True),
      (''reg_number'', Scalar TStr, True),
      (''uuid'', Scalar TUUID, True),
      (''state'', Scalar TPortalStatus, True)]"
| "fields Driver =
     [(''driver_uuid'', Scalar TUUID, True),
      (''partner_uuid'', Scalar TUUID, True),
      (''first_name'', Scalar TStr, True),
      (''last_name'', Scalar TStr, True),
      (''email'', Scalar TStr, True),
      (''phone'', Scalar TStr, True),
      (''state'', Scalar TPortalStatus, True),
      (''has_cash_payment'', Scalar TBool, True)]"
| "fields FleetStateLog =
     [(''created'', Scalar TInt, True),
      (''state'', Scalar TStr, True),
      (''driver_uuid'', Scalar TUUID, True),
      (''vehicle_uuid'', Scalar TUUID, True),
      (''lat'', Scalar TFloat, True),
      (''lng'', Scalar TFloat, True)]"

text \<open>
  Modelled from the spec: the coercion of a value to a declared scalar type. It belongs
  to the validation library, which is not among the repository's sources; section 4.1 of
  the specification says that a non-UUID-shaped string where a UUID is expected and a
  non-numeric value where a float or an int is expected cannot be coerced. A UUID-shaped
  string has the form \<^verbatim>\<open>xxxxxxxx-xxxx-xxxx-xxxx-xxxxxxxxxxxx\<close> with hexadecimal digits
  for \<^verbatim>\<open>x\<close>. A number is coerced to the declared numeric type when it has a value of
  that type; a string, a boolean and a member of the enumeration are accepted for their
  own type. The result is the coerced value, or nothing.
\<close>

definition is_hex :: "char \<Rightarrow> bool" where
  "is_hex ch = (ch \<in> set ''0123456789abcdefABCDEF'')"

fun matches_template :: "string \<Rightarrow> string \<Rightarrow> bool" where
  "matches_template [] [] = True"
| "matches_template (t # ts) (ch # chs) =
     ((if t = CHR ''-'' then ch = CHR ''-'' else is_hex ch) \<and> matches_template ts chs)"
| "matches_template [] (ch # chs) = False"
| "matches_template (t # ts) [] = False"

definition uuid_shaped :: "string \<Rightarrow> bool" where
  "uuid_shaped s = matches_template ''xxxxxxxx-xxxx-xxxx-xxxx-xxxxxxxxxxxx'' s"









text \<open>
  A fully-populated mapping of the shape of a class: it gives the declared fields, in
  the order of the declaration, each with a value of the declared type: an integer for
  \<^verbatim>\<open>int\<close>, a float for \<^verbatim>\<open>float\<close>, a boolean for \<^verbatim>\<open>bool\<close>, a string for \<^verbatim>\<open>str\<close>, a
  UUID-shaped string for \<^verbatim>\<open>UUID\<close>, one of the two strings of the enumeration for
  \<^verbatim>\<open>PortalStatus\<close>, and fully-populated mappings for the nested classes.
\<close>

fun of_type :: "scalar \<Rightarrow> json \<Rightarrow> bool" where
  "of_type TInt (JInt i) = True"
| "of_type TFloat (JFloat x) = True"
| "of_type TStr (JStr s) = True"
| "of_type TBool (JBool b) = True"
| "of_type TUUID (JStr s) = uuid_shaped s"
| "of_type TPortalStatus (JStr s) = (s = ''active'' \<or> s = ''inactive'')"
| "of_type ty v = False"

fun typed_entry ::
  "(ftype \<Rightarrow> json \<Rightarrow> bool) \<Rightarrow> string \<times> ftype \<times> bool \<Rightarrow> string \<times> json \<Rightarrow> bool" where
  "typed_entry shaped (f, ty, required) (k, v) = (k = f \<and> shaped ty v)"

fun leaf_shaped :: "ftype \<Rightarrow> json \<Rightarrow> bool" where
  "leaf_shaped (Scalar s) v = of_type s v"
| "leaf_shaped (Nested m) v = False"
| "leaf_shaped (ListOf m) v = False"

fun populated_leaf :: "model \<Rightarrow> json \<Rightarrow> bool" where
  "populated_leaf m (JObj kwargs) = list_all2 (typed_entry leaf_shaped) (fields m) kwargs"
| "populated_leaf m JNull = False"
| "populated_leaf m (JBool b) = False"
| "populated_leaf m (JInt i) = False"
| "populated_leaf m (JFloat x) = False"
| "populated_leaf m (JStr s) = False"
| "populated_leaf m (JList xs) = False"

fun shaped :: "ftype \<Rightarrow> json \<Rightarrow> bool" where
  "shaped (Scalar s) v = of_type s v"
| "shaped (Nested m) v = populated_leaf m v"
| "shaped (ListOf m) v = (case v of JList xs \<Rightarrow> list_all (populated_leaf m) xs | _ \<Rightarrow> False)"


section \<open>Sample inputs\<close>

text \<open>A client that holds the token \<^verbatim>\<open>"T0"\<close>, a world whose network delivers the given
  responses and whose \<open>n\<close>-th clock reading is \<open>clk n\<close>, and some responses.\<close>

definition sample_client :: client where
  "sample_client =
     \<lparr>client_id = Some ''id'', client_secret = Some ''secret'',
      base_url = Some ''https://api.example'', access_token = JStr ''T0''\<rparr>"

definition sample_world :: "response list \<Rightarrow> (nat \<Rightarrow> int) \<Rightarrow> world" where
  "sample_world rs clk =
     \<lparr>pending = rs, sent = [], wall_clock = clk, clock_reads = 0, posix_of_local = (\<lambda>t. t)\<rparr>"

text \<open>Clocks: one that reads \<open>t\<close> every time, and one that reads \<open>t\<close> first and \<open>d\<close>
  microseconds more at each later reading.\<close>

definition clock_at :: "int \<Rightarrow> nat \<Rightarrow> int" where
  "clock_at t n = t"

definition clock_from :: "int \<Rightarrow> int \<Rightarrow> nat \<Rightarrow> int" where
  "clock_from t d n = t + d * int n"

definition json_response :: "int \<Rightarrow> json \<Rightarrow> response" where
  "json_response st j = \<lparr>status_code = st, body_text = ''(json)'', body_json = Some j\<rparr>"

definition html_response :: "int \<Rightarrow> response" where
  "html_response st = \<lparr>status_code = st, body_text = ''<html>'', body_json = None\<rparr>"

text \<open>A record constructor that accepts every mapping and keeps it.\<close>

definition keep_fields :: "model \<Rightarrow> (string \<times> json) list \<Rightarrow> error + (string \<times> json) list" where
  "keep_fields m kwargs = Inr kwargs"

definition sample_env :: "string \<Rightarrow> string option" where
  "sample_env k = Some k"

definition token_response :: "json \<Rightarrow> response" where
  "token_response t = json_response 200 (JObj [(''access_token'', t)])"

section \<open>The shared shape\<close>

lemma invoke_template:
  "invoke mk call c w start_ts end_ts =
     resource_template mk (call_model call) (call_path call) (call_what call) (call_field call)
       (call_body call) c w start_ts end_ts"
  by (cases call)
     (simp_all add: get_fleet_orders_def get_vehicles_def get_drivers_def
        get_fleet_state_logs_def resource_template_def api_request_def finish_def
      split: prod.split sum.split)

section \<open>Fetching a token\<close>

lemma http_post_Cons:
  "pending w = r # rs \<Longrightarrow> http_post rq w = (Inr r, w\<lparr>pending := rs, sent := sent w @ [rq]\<rparr>)"
  by (simp add: http_post_def)

lemma http_post_Nil:
  "pending w = [] \<Longrightarrow> http_post rq w = (Inl ConnectionError, w\<lparr>sent := sent w @ [rq]\<rparr>)"
  by (simp add: http_post_def)

lemma get_access_token_client: "fst (snd (get_access_token c w)) = c"
  by (simp add: get_access_token_def split: prod.split sum.split)

lemma get_access_token_world:
  "snd (snd (get_access_token c w)) =
     w\<lparr>pending := tl (pending w), sent := sent w @ [token_request c]\<rparr>"
  by (cases "pending w")
     (simp_all add: get_access_token_def http_post_def split: sum.split)

lemma get_access_token_granted:
  assumes "pending w = r # rs" and "granted r = Some t"
  shows "get_access_token c w =
           (Inr t, c, w\<lparr>pending := rs, sent := sent w @ [token_request c]\<rparr>)"
  using assms
  by (auto simp: get_access_token_def http_post_def granted_def response_json_def
           split: if_splits option.splits json.splits)

lemma get_access_token_Inr:
  assumes "get_access_token c w = (Inr t, c', w')"
  shows "\<exists>r rs. pending w = r # rs \<and> granted r = Some t \<and> truthy t"
proof (cases "pending w")
  case Nil
  with assms show ?thesis
    by (simp add: get_access_token_def http_post_def)
next
  case (Cons r rs)
  from assms Cons have "granted r = Some t \<and> truthy t"
    by (cases "body_json r"; cases "the (body_json r)")
       (auto simp: get_access_token_def http_post_def granted_def response_json_def
             split: if_splits option.splits)
  with Cons show ?thesis by blast
qed

text \<open>
  C3, as the code has it. With \<open>r\<close> the response of the token endpoint:
  a status other than 200 fails with the error that carries the status and the body;
  status 200 with a JSON object that has no \<^verbatim>\<open>access_token\<close>, or a false one
  (\<^verbatim>\<open>None\<close>, the empty string, zero), fails with "no token received"; status 200 with a
  JSON object whose \<^verbatim>\<open>access_token\<close> is a true value returns that value. In every
  case, whatever the network does, the client is left as it was and the one request made
  is the token request, which reads the credentials only.
\<close>

theorem get_access_token_contract:
  "(pending w = r # rs \<and> status_code r \<noteq> 200 \<longrightarrow>
      fst (get_access_token c w) = Inl (TokenRequestFailed (status_code r) (body_text r)) \<and>
      is_AuthError (TokenRequestFailed (status_code r) (body_text r)))
   \<and> (pending w = r # rs \<and> status_code r = 200 \<and> body_json r = Some (JObj kvs) \<and>
        map_of kvs ''access_token'' = None \<longrightarrow>
      fst (get_access_token c w) = Inl NoTokenReceived \<and> is_AuthError NoTokenReceived)
   \<and> (pending w = r # rs \<and> status_code r = 200 \<and> body_json r = Some (JObj kvs) \<and>
        map_of kvs ''access_token'' = Some t \<and> \<not> truthy t \<longrightarrow>
      fst (get_access_token c w) = Inl NoTokenReceived)
   \<and> (pending w = r # rs \<and> status_code r = 200 \<and> body_json r = Some (JObj kvs) \<and>
        map_of kvs ''access_token'' = Some t \<and> truthy t \<longrightarrow>
      fst (get_access_token c w) = Inr t)
   \<and> fst (snd (get_access_token c w)) = c
   \<and> requests_during w (snd (snd (get_access_token c w))) = [token_request c]
   \<and> token_request (c\<lparr>access_token := a, base_url := b\<rparr>) = token_request c"
proof -
  have 1: "pending w = r # rs \<and> status_code r \<noteq> 200 \<longrightarrow>
      fst (get_access_token c w) = Inl (TokenRequestFailed (status_code r) (body_text r)) \<and>
      is_AuthError (TokenRequestFailed (status_code r) (body_text r))"
    by (simp add: get_access_token_def http_post_def)
  have 2: "pending w = r # rs \<and> status_code r = 200 \<and> body_json r = Some (JObj kvs) \<and>
        map_of kvs ''access_token'' = None \<longrightarrow>
      fst (get_access_token c w) = Inl NoTokenReceived \<and> is_AuthError NoTokenReceived"
    by (simp add: get_access_token_def http_post_def response_json_def)
  have 3: "pending w = r # rs \<and> status_code r = 200 \<and> body_json r = Some (JObj kvs) \<and>
        map_of kvs ''access_token'' = Some t \<and> \<not> truthy t \<longrightarrow>
      fst (get_access_token c w) = Inl NoTokenReceived"
    by (simp add: get_access_token_def http_post_def response_json_def)
  have 4: "pending w = r # rs \<and> status_code r = 200 \<and> body_json r = Some (JObj kvs) \<and>
        map_of kvs ''access_token'' = Some t \<and> truthy t \<longrightarrow>
      fst (get_access_token c w) = Inr t"
    by (simp add: get_access_token_def http_post_def response_json_def)
  have 5: "requests_during w (snd (snd (get_access_token c w))) = [token_request c]"
    by (simp add: get_access_token_world requests_during_def)
  have 6: "token_request (c\<lparr>access_token := a, base_url := b\<rparr>) = token_request c"
    by (simp add: token_request_def)
  from 1 2 3 4 5 6 get_access_token_client show ?thesis by blast
qed

theorem get_access_token_contract_witness:
  "status_code (html_response 500) \<noteq> 200
   \<and> fst (get_access_token sample_client (sample_world [html_response 500] (clock_at 0))) =
       Inl (TokenRequestFailed 500 ''<html>'')
   \<and> map_of [] ''access_token'' = (None :: json option)
   \<and> fst (get_access_token sample_client
           (sample_world [json_response 200 (JObj [])] (clock_at 0))) = Inl NoTokenReceived
   \<and> \<not> truthy JNull
   \<and> fst (get_access_token sample_client
           (sample_world [token_response JNull] (clock_at 0))) = Inl NoTokenReceived
   \<and> truthy (JStr ''T1'')
   \<and> fst (get_access_token sample_client
           (sample_world [token_response (JStr ''T1'')] (clock_at 0))) = Inr (JStr ''T1'')"
  using
    get_access_token_contract [where w = "sample_world [html_response 500] (clock_at 0)"
      and r = "html_response 500" and rs = "[]" and c = sample_client]
    get_access_token_contract [where w = "sample_world [json_response 200 (JObj [])] (clock_at 0)"
      and r = "json_response 200 (JObj [])" and rs = "[]" and c = sample_client and kvs = "[]"]
    get_access_token_contract [where w = "sample_world [token_response JNull] (clock_at 0)"
      and r = "token_response JNull" and rs = "[]" and c = sample_client
      and kvs = "[(''access_token'', JNull)]" and t = JNull]
    get_access_token_contract [where w = "sample_world [token_response (JStr ''T1'')] (clock_at 0)"
      and r = "token_response (JStr ''T1'')" and rs = "[]" and c = sample_client
      and kvs = "[(''access_token'', JStr ''T1'')]" and t = "JStr ''T1''"]
  by (simp add: sample_world_def html_response_def json_response_def token_response_def)

text \<open>
  Where the sentence of C3 fails as written. The body \<^verbatim>\<open>{"access_token": ""}\<close> has the
  field, and the fetch fails with "no token received" instead of returning it; a status
  200 whose body is not JSON fails with the decoding error, which is neither of the two
  token errors nor a token.
\<close>

theorem get_access_token_counterexample:
  "status_code (token_response (JStr [])) = 200
   \<and> body_json (token_response (JStr [])) = Some (JObj [(''access_token'', JStr [])])
   \<and> fst (get_access_token sample_client
           (sample_world [token_response (JStr [])] (clock_at 0))) = Inl NoTokenReceived
   \<and> status_code (html_response 200) = 200
   \<and> fst (get_access_token sample_client
           (sample_world [html_response 200] (clock_at 0))) = Inl JSONDecodeError
   \<and> \<not> is_AuthError JSONDecodeError"
  by (simp add: get_access_token_def http_post_def response_json_def sample_world_def
        html_response_def json_response_def token_response_def)

section \<open>Deciding on a refresh\<close>

lemma refresh_401:
  assumes "status_code r = 401" and "pending w = tr # rs" and "granted tr = Some t"
  shows "refresh_token_if_needed r c w =
           (Inr True, c\<lparr>access_token := t\<rparr>, w\<lparr>pending := rs, sent := sent w @ [token_request c]\<rparr>)"
  using assms
  by (simp add: refresh_token_if_needed_def refresh_try_def refresh_except_def
        response_json_def get_access_token_granted split: option.split)

lemma refresh_503:
  assumes "has_code_503 r" and "pending w = tr # rs" and "granted tr = Some t"
  shows "refresh_token_if_needed r c w =
           (Inr True, c\<lparr>access_token := t\<rparr>, w\<lparr>pending := rs, sent := sent w @ [token_request c]\<rparr>)"
  using assms
  by (auto simp: refresh_token_if_needed_def refresh_try_def refresh_except_def
        response_json_def get_access_token_granted has_code_503_def
        split: option.splits json.splits)

lemma py_get_code:
  "\<not> has_code_503 r \<Longrightarrow> body_json r = Some j \<Longrightarrow> py_get j ''code'' JNull = Inr v \<Longrightarrow> \<not> py_eq_int v 503"
  by (cases j) (auto simp: has_code_503_def split: option.splits)

lemma refresh_none:
  assumes "status_code r \<noteq> 401" and "\<not> has_code_503 r"
  shows "refresh_token_if_needed r c w = (Inr False, c, w)"
proof (cases "body_json r")
  case None
  with assms show ?thesis
    by (simp add: refresh_token_if_needed_def refresh_try_def refresh_except_def response_json_def)
next
  case (Some j)
  show ?thesis
  proof (cases "py_get j ''code'' JNull")
    case (Inl e)
    with Some assms show ?thesis
      by (simp add: refresh_token_if_needed_def refresh_try_def refresh_except_def response_json_def)
  next
    case (Inr v)
    with py_get_code [OF assms(2) Some Inr] Some assms show ?thesis
      by (simp add: refresh_token_if_needed_def refresh_try_def refresh_except_def response_json_def)
  qed
qed


lemma get_access_token_shape:
  "\<exists>res. get_access_token c w =
           (res, c, w\<lparr>pending := tl (pending w), sent := sent w @ [token_request c]\<rparr>) \<and>
         (\<forall>t. res = Inr t \<longrightarrow> truthy t \<and> (\<exists>r rs. pending w = r # rs \<and> granted r = Some t))"
proof -
  obtain res c' w' where g: "get_access_token c w = (res, c', w')"
    by (cases "get_access_token c w") auto
  from g get_access_token_client [of c w] have c': "c' = c" by simp
  from g get_access_token_world [of c w]
  have w': "w' = w\<lparr>pending := tl (pending w), sent := sent w @ [token_request c]\<rparr>" by simp
  have "\<forall>t. res = Inr t \<longrightarrow> truthy t \<and> (\<exists>r rs. pending w = r # rs \<and> granted r = Some t)"
    using g get_access_token_Inr by blast
  with g c' w' show ?thesis by simp
qed


lemma refresh_True:
  assumes "refresh_token_if_needed r c w = (Inr True, c', w')"
  shows "(status_code r = 401 \<or> has_code_503 r) \<and>
         truthy (access_token c') \<and> c' = c\<lparr>access_token := access_token c'\<rparr> \<and>
         (\<exists>tr \<in> set (pending w). granted tr = Some (access_token c')) \<and>
         (requests_during w w' = [token_request c] \<or>
          requests_during w w' = [token_request c, token_request c])"
proof -
  let ?W = "w\<lparr>pending := tl (pending w), sent := sent w @ [token_request c]\<rparr>"
  let ?W2 = "?W\<lparr>pending := tl (pending ?W), sent := sent ?W @ [token_request c]\<rparr>"
  obtain res1 where g1: "get_access_token c w = (res1, c, ?W)"
    and t1: "\<And>t. res1 = Inr t \<Longrightarrow> truthy t \<and> (\<exists>r rs. pending w = r # rs \<and> granted r = Some t)"
    using get_access_token_shape [of c w] by blast
  obtain res2 where g2: "get_access_token c ?W = (res2, c, ?W2)"
    and t2: "\<And>t. res2 = Inr t \<Longrightarrow> truthy t \<and> (\<exists>r rs. pending ?W = r # rs \<and> granted r = Some t)"
    using get_access_token_shape [of c ?W] by blast
  have sig: "status_code r = 401 \<or> has_code_503 r"
    using assms refresh_none [of r c w] by auto
  obtain t where t: "res1 = Inr t \<and> w' = ?W \<or> res2 = Inr t \<and> w' = ?W2"
    and c': "c' = c\<lparr>access_token := t\<rparr>"
    using assms g1 g2
    by (auto simp: refresh_token_if_needed_def refresh_try_def refresh_except_def
          response_json_def split: option.splits sum.splits if_splits bool.splits)
  have tok: "access_token c' = t" using c' by simp
  from t show ?thesis
  proof
    assume a: "res1 = Inr t \<and> w' = ?W"
    with t1 [of t] obtain tr rs where "pending w = tr # rs" "granted tr = Some t" "truthy t"
      by blast
    with a sig c' tok show ?thesis
      by (auto simp: requests_during_def)
  next
    assume a: "res2 = Inr t \<and> w' = ?W2"
    with t2 [of t] obtain tr rs where p: "pending ?W = tr # rs" "granted tr = Some t" "truthy t"
      by blast
    from p(1) have "tr \<in> set (pending w)"
      by (cases "pending w") auto
    with a sig c' tok p show ?thesis
      by (auto simp: requests_during_def)
  qed
qed

lemma refresh_401_not_False:
  assumes "status_code r = 401"
  shows "fst (refresh_token_if_needed r c w) \<noteq> Inr False"
  using assms
  by (auto simp: refresh_token_if_needed_def refresh_try_def refresh_except_def
        response_json_def split: option.splits sum.splits prod.splits)

text \<open>
  C2, as the code has it. When the token fetch it triggers is granted a token \<open>t\<close>, the
  check returns true and holds \<open>t\<close>, after exactly one token request: for every response
  with status 401, whatever its body, and for every response whose body parses as a JSON
  object with a \<^verbatim>\<open>code\<close> equal to 503, whatever its status. A response with status 401
  never makes it return false. A response whose status is not 401 and whose body has no
  such code makes it return false with nothing requested and nothing changed; a body that
  does not parse has no such code, so the status alone decides. Whenever the check
  returns true, the response was one of the two kinds, the token held is a true value
  that a pending response of the token endpoint granted, only the token changed in the
  client, and the requests made are token requests.
\<close>

theorem refresh_token_if_needed_decision:
  "(status_code r = 401 \<and> pending w = tr # rs \<and> granted tr = Some t \<longrightarrow>
      refresh_token_if_needed r c w =
        (Inr True, c\<lparr>access_token := t\<rparr>,
         w\<lparr>pending := rs, sent := sent w @ [token_request c]\<rparr>))
   \<and> (has_code_503 r \<and> pending w = tr # rs \<and> granted tr = Some t \<longrightarrow>
      refresh_token_if_needed r c w =
        (Inr True, c\<lparr>access_token := t\<rparr>,
         w\<lparr>pending := rs, sent := sent w @ [token_request c]\<rparr>))
   \<and> (status_code r = 401 \<longrightarrow> fst (refresh_token_if_needed r c w) \<noteq> Inr False)
   \<and> (status_code r \<noteq> 401 \<and> \<not> has_code_503 r \<longrightarrow>
      refresh_token_if_needed r c w = (Inr False, c, w))
   \<and> (body_json r = None \<longrightarrow> \<not> has_code_503 r)
   \<and> (refresh_token_if_needed r c w = (Inr True, c', w') \<longrightarrow>
      (status_code r = 401 \<or> has_code_503 r) \<and>
      truthy (access_token c') \<and>
      (\<exists>g \<in> set (pending w). granted g = Some (access_token c')) \<and>
      c' = c\<lparr>access_token := access_token c'\<rparr> \<and>
      requests_during w w' \<noteq> [] \<and> set (requests_during w w') = {token_request c})"
proof -
  have 1: "body_json r = None \<longrightarrow> \<not> has_code_503 r"
    by (simp add: has_code_503_def)
  have 2: "refresh_token_if_needed r c w = (Inr True, c', w') \<longrightarrow>
      (status_code r = 401 \<or> has_code_503 r) \<and>
      truthy (access_token c') \<and>
      (\<exists>g \<in> set (pending w). granted g = Some (access_token c')) \<and>
      c' = c\<lparr>access_token := access_token c'\<rparr> \<and>
      requests_during w w' \<noteq> [] \<and> set (requests_during w w') = {token_request c}"
  proof
    assume a: "refresh_token_if_needed r c w = (Inr True, c', w')"
    from refresh_True [OF a]
    have d: "requests_during w w' = [token_request c] \<or>
             requests_during w w' = [token_request c, token_request c]"
      by blast
    then have "requests_during w w' \<noteq> [] \<and> set (requests_during w w') = {token_request c}"
      by auto
    with refresh_True [OF a] show
      "(status_code r = 401 \<or> has_code_503 r) \<and>
       truthy (access_token c') \<and>
       (\<exists>g \<in> set (pending w). granted g = Some (access_token c')) \<and>
       c' = c\<lparr>access_token := access_token c'\<rparr> \<and>
       requests_during w w' \<noteq> [] \<and> set (requests_during w w') = {token_request c}"
      by blast
  qed
  from 1 2 refresh_401 [of r w tr rs t c] refresh_503 [of r w tr rs t c]
    refresh_none [of r c w] refresh_401_not_False [of r c w]
  show ?thesis by blast
qed

theorem refresh_token_if_needed_decision_witness:
  "granted (token_response (JStr ''T1'')) = Some (JStr ''T1'')
   \<and> fst (refresh_token_if_needed (html_response 401) sample_client
           (sample_world [token_response (JStr ''T1'')] (clock_at 0))) = Inr True
   \<and> access_token (fst (snd (refresh_token_if_needed (html_response 401) sample_client
           (sample_world [token_response (JStr ''T1'')] (clock_at 0))))) = JStr ''T1''
   \<and> has_code_503 (json_response 200 (JObj [(''code'', JInt 503)]))
   \<and> fst (refresh_token_if_needed (json_response 200 (JObj [(''code'', JInt 503)])) sample_client
           (sample_world [token_response (JStr ''T1'')] (clock_at 0))) = Inr True
   \<and> \<not> has_code_503 (json_response 200 (JObj [(''data'', JObj [])]))
   \<and> refresh_token_if_needed (json_response 200 (JObj [(''data'', JObj [])])) sample_client
           (sample_world [] (clock_at 0)) = (Inr False, sample_client, sample_world [] (clock_at 0))
   \<and> fst (refresh_token_if_needed (html_response 401) sample_client
           (sample_world [] (clock_at 0))) \<noteq> Inr False
   \<and> \<not> has_code_503 (html_response 200)
   \<and> truthy (access_token (sample_client\<lparr>access_token := JStr ''T1''\<rparr>))
   \<and> requests_during (sample_world [token_response (JStr ''T1'')] (clock_at 0))
        ((sample_world [token_response (JStr ''T1'')] (clock_at 0))
           \<lparr>pending := [], sent := [token_request sample_client]\<rparr>) \<noteq> []"
proof -
  let ?tr = "token_response (JStr ''T1'')"
  let ?w = "sample_world [?tr] (clock_at 0)"
  let ?w' = "?w\<lparr>pending := [], sent := sent ?w @ [token_request sample_client]\<rparr>"
  let ?c' = "sample_client\<lparr>access_token := JStr ''T1''\<rparr>"
  have g: "granted ?tr = Some (JStr ''T1'')"
    by (simp add: granted_def token_response_def json_response_def)
  have p: "pending ?w = [?tr]"
    by (simp add: sample_world_def)
  have s: "sent ?w = []"
    by (simp add: sample_world_def)
  have h: "has_code_503 (json_response 200 (JObj [(''code'', JInt 503)]))"
    by (simp add: has_code_503_def json_response_def)
  have n: "\<not> has_code_503 (json_response 200 (JObj [(''data'', JObj [])]))"
    by (simp add: has_code_503_def json_response_def)
  have st: "status_code (html_response 401) = 401"
    "status_code (json_response 200 (JObj [(''data'', JObj [])])) \<noteq> 401"
    "body_json (html_response 200) = None"
    by (simp_all add: html_response_def json_response_def)
  have a: "refresh_token_if_needed (html_response 401) sample_client ?w = (Inr True, ?c', ?w')"
    using refresh_token_if_needed_decision
      [where r = "html_response 401" and w = ?w and tr = ?tr and rs = "[]"
         and t = "JStr ''T1''" and c = sample_client] g p st
    by blast
  have b: "refresh_token_if_needed (json_response 200 (JObj [(''code'', JInt 503)]))
             sample_client ?w = (Inr True, ?c', ?w')"
    using refresh_token_if_needed_decision
      [where r = "json_response 200 (JObj [(''code'', JInt 503)])" and w = ?w and tr = ?tr
         and rs = "[]" and t = "JStr ''T1''" and c = sample_client] g p h
    by blast
  have c: "refresh_token_if_needed (json_response 200 (JObj [(''data'', JObj [])])) sample_client
             (sample_world [] (clock_at 0)) = (Inr False, sample_client, sample_world [] (clock_at 0))"
    using refresh_token_if_needed_decision
      [where r = "json_response 200 (JObj [(''data'', JObj [])])"
         and w = "sample_world [] (clock_at 0)" and c = sample_client] n st
    by blast
  have d: "fst (refresh_token_if_needed (html_response 401) sample_client
             (sample_world [] (clock_at 0))) \<noteq> Inr False"
    using refresh_token_if_needed_decision
      [where r = "html_response 401" and w = "sample_world [] (clock_at 0)"
         and c = sample_client] st
    by blast
  have e: "\<not> has_code_503 (html_response 200)"
    using refresh_token_if_needed_decision [where r = "html_response 200"] st
    by blast
  have f: "truthy (access_token ?c') \<and> requests_during ?w ?w' \<noteq> []"
    using refresh_token_if_needed_decision
      [where r = "html_response 401" and w = ?w and c = sample_client and c' = ?c' and w' = ?w'] a
    by blast
  from g a b c d e f h n s show ?thesis
    by simp
qed

text \<open>
  Where the sentence of C2 fails as written: with a token endpoint that answers 500, a
  response with status 200 and body \<^verbatim>\<open>{"code": 503}\<close> makes the check return false, and
  a response with status 401 makes it raise the token error; neither returns true.
\<close>

theorem refresh_token_if_needed_counterexample:
  "has_code_503 (json_response 200 (JObj [(''code'', JInt 503)]))
   \<and> fst (refresh_token_if_needed (json_response 200 (JObj [(''code'', JInt 503)])) sample_client
           (sample_world [html_response 500] (clock_at 0))) = Inr False
   \<and> status_code (html_response 401) = 401
   \<and> fst (refresh_token_if_needed (html_response 401) sample_client
           (sample_world [html_response 500] (clock_at 0))) = Inl (TokenRequestFailed 500 ''<html>'')"
  by (simp add: refresh_token_if_needed_def refresh_try_def refresh_except_def
        get_access_token_def http_post_def response_json_def has_code_503_def
        sample_world_def html_response_def json_response_def)

section \<open>A failed refresh inside the check\<close>

text \<open>
  C4 at two inputs. A response with status 401 and the JSON body \<^verbatim>\<open>{}\<close>, while the token
  endpoint answers 500 and then grants \<^verbatim>\<open>"T1"\<close>: the failed fetch is raised inside the
  \<^verbatim>\<open>try\<close>, the handler fetches again, two token requests go out and the check returns
  true. A response with status 200 and body \<^verbatim>\<open>{"code": 503}\<close>, while the token endpoint
  answers 500: the handler drops the error, the check returns false and the method
  returns an empty list with the old token in place.
\<close>

theorem failed_refresh_is_retried_or_dropped:
  "refresh_token_if_needed (json_response 401 (JObj [])) sample_client
     (sample_world [html_response 500, token_response (JStr ''T1'')] (clock_at 0)) =
     (Inr True, sample_client\<lparr>access_token := JStr ''T1''\<rparr>,
      (sample_world [] (clock_at 0))
        \<lparr>sent := [token_request sample_client, token_request sample_client]\<rparr>)
   \<and> fst (get_access_token sample_client (sample_world [html_response 500] (clock_at 0))) =
       Inl (TokenRequestFailed 500 ''<html>'')
   \<and> get_fleet_state_logs keep_fields sample_client
       (sample_world [json_response 200 (JObj [(''code'', JInt 503)]), html_response 500]
          (clock_at 0)) 0 10 7 (Some 0) (Some 1) =
     (Inr [], sample_client,
      (sample_world [] (clock_at 0))
        \<lparr>sent := [api_request sample_client ''/getFleetStateLogs''
                    (call_body (GetFleetStateLogs 0 10 7) 0 1),
                  token_request sample_client]\<rparr>)"
  by (simp add: refresh_token_if_needed_def refresh_try_def refresh_except_def
        get_access_token_def http_post_def response_json_def get_fleet_state_logs_def
        ensure_token_def default_start_ts_def default_end_ts_def records_of_def
        api_request_def sample_client_def
        sample_world_def html_response_def json_response_def token_response_def)

section \<open>One call, path by path\<close>

lemma after_window_frame:
  "pending (after_window s0 e0 w) = pending w"
  "sent (after_window s0 e0 w) = sent w"
  "wall_clock (after_window s0 e0 w) = wall_clock w"
  "posix_of_local (after_window s0 e0 w) = posix_of_local w"
  by (simp_all add: after_window_def default_start_ts_def default_end_ts_def datetime_now_def
        split: option.split)

lemma template_ready:
  assumes "truthy (access_token c)"
  shows "resource_template mk m path what field body c w s0 e0 =
     (case http_post (api_request c path (body (window_start s0 w) (window_end s0 e0 w)))
             (after_window s0 e0 w) of
        (Inl e, w4) \<Rightarrow> (Inl e, c, w4)
      | (Inr response, w4) \<Rightarrow>
     (case refresh_token_if_needed response c w4 of
        (Inl e, c2, w5) \<Rightarrow> (Inl e, c2, w5)
      | (Inr refreshed, c2, w5) \<Rightarrow>
     (case (if refreshed
            then http_post (api_request c2 path (body (window_start s0 w) (window_end s0 e0 w))) w5
            else (Inr response, w5)) of
        (Inl e, w6) \<Rightarrow> (Inl e, c2, w6)
      | (Inr response2, w6) \<Rightarrow> (finish mk m what field response2, c2, w6))))"
proof -
  obtain s w2 where a: "default_start_ts s0 w = (s, w2)"
    by (cases "default_start_ts s0 w") auto
  obtain e w3 where b: "default_end_ts e0 w2 = (e, w3)"
    by (cases "default_end_ts e0 w2") auto
  from a b have eqs: "window_start s0 w = s" "window_end s0 e0 w = e" "after_window s0 e0 w = w3"
    by (simp_all add: window_start_def window_end_def after_window_def)
  show ?thesis
    unfolding eqs using assms a b
    by (simp add: resource_template_def ensure_token_def)
qed

lemma template_refresh:
  assumes "truthy (access_token c)"
    and "pending w = r1 # tr # r2 # rs"
    and "status_code r1 = 401 \<or> has_code_503 r1"
    and "granted tr = Some t"
  shows "resource_template mk m path what field body c w s0 e0 =
     (finish mk m what field r2, c\<lparr>access_token := t\<rparr>,
      (after_window s0 e0 w)
        \<lparr>pending := rs,
         sent := sent w @
           [api_request c path (body (window_start s0 w) (window_end s0 e0 w)),
            token_request c,
            api_request (c\<lparr>access_token := t\<rparr>) path
              (body (window_start s0 w) (window_end s0 e0 w))]\<rparr>)"
proof -
  let ?w3 = "after_window s0 e0 w"
  let ?rq = "api_request c path (body (window_start s0 w) (window_end s0 e0 w))"
  let ?w4 = "?w3\<lparr>pending := tr # r2 # rs, sent := sent w @ [?rq]\<rparr>"
  let ?w5 = "?w4\<lparr>pending := r2 # rs, sent := sent w @ [?rq, token_request c]\<rparr>"
  have p1: "http_post ?rq ?w3 = (Inr r1, ?w4)"
    using assms(2) by (simp add: http_post_Cons after_window_frame)
  have p2: "refresh_token_if_needed r1 c ?w4 = (Inr True, c\<lparr>access_token := t\<rparr>, ?w5)"
    using assms(3,4) refresh_401 [of r1 ?w4 tr "r2 # rs" t c] refresh_503 [of r1 ?w4 tr "r2 # rs" t c]
    by auto
  show ?thesis
    by (simp add: template_ready [OF assms(1)] p1 p2 http_post_Cons after_window_frame)
qed

lemma template_no_refresh:
  assumes "truthy (access_token c)"
    and "pending w = r1 # rs"
    and "status_code r1 \<noteq> 401" and "\<not> has_code_503 r1"
  shows "resource_template mk m path what field body c w s0 e0 =
     (finish mk m what field r1, c,
      (after_window s0 e0 w)
        \<lparr>pending := rs,
         sent := sent w @
           [api_request c path (body (window_start s0 w) (window_end s0 e0 w))]\<rparr>)"
proof -
  let ?w3 = "after_window s0 e0 w"
  let ?rq = "api_request c path (body (window_start s0 w) (window_end s0 e0 w))"
  let ?w4 = "?w3\<lparr>pending := rs, sent := sent w @ [?rq]\<rparr>"
  have p1: "http_post ?rq ?w3 = (Inr r1, ?w4)"
    using assms(2) by (simp add: http_post_Cons after_window_frame)
  have p2: "refresh_token_if_needed r1 c ?w4 = (Inr False, c, ?w4)"
    using assms(3,4) by (rule refresh_none)
  show ?thesis
    by (simp add: template_ready [OF assms(1)] p1 p2 after_window_frame)
qed


lemma invoke_refresh:
  assumes "truthy (access_token c)"
    and "pending w = r1 # tr # r2 # rs"
    and "status_code r1 = 401 \<or> has_code_503 r1"
    and "granted tr = Some t"
  shows "invoke mk call c w s0 e0 =
     (finish mk (call_model call) (call_what call) (call_field call) r2,
      c\<lparr>access_token := t\<rparr>,
      (after_window s0 e0 w)
        \<lparr>pending := rs,
         sent := sent w @
           [api_request c (call_path call)
              (call_body call (window_start s0 w) (window_end s0 e0 w)),
            token_request c,
            api_request (c\<lparr>access_token := t\<rparr>) (call_path call)
              (call_body call (window_start s0 w) (window_end s0 e0 w))]\<rparr>)"
  unfolding invoke_template by (rule template_refresh [OF assms])

lemma invoke_no_refresh:
  assumes "truthy (access_token c)"
    and "pending w = r1 # rs"
    and "status_code r1 \<noteq> 401" and "\<not> has_code_503 r1"
  shows "invoke mk call c w s0 e0 =
     (finish mk (call_model call) (call_what call) (call_field call) r1, c,
      (after_window s0 e0 w)
        \<lparr>pending := rs,
         sent := sent w @
           [api_request c (call_path call)
              (call_body call (window_start s0 w) (window_end s0 e0 w))]\<rparr>)"
  unfolding invoke_template by (rule template_no_refresh [OF assms])



text \<open>
  C9. In the same situation the retried request is the first one with the new token: the
  same payload (the method's body with the same time window), the same URL, the same
  headers but for the bearer token. The clock is read for the defaults only, once per
  omitted bound, so nothing of the window is computed again.
\<close>

theorem retry_repeats_the_request:
  assumes "truthy (access_token c)"
    and "pending w = r # tr # r' # rs"
    and "status_code r = 401 \<or> has_code_503 r"
    and "granted tr = Some t"
  shows "length (requests_during w (snd (snd (invoke mk call c w start_ts end_ts)))) = 3
       \<and> payload (requests_during w (snd (snd (invoke mk call c w start_ts end_ts))) ! 0) =
           JsonBody (call_body call (window_start start_ts w) (window_end start_ts end_ts w))
       \<and> payload (requests_during w (snd (snd (invoke mk call c w start_ts end_ts))) ! 2) =
           payload (requests_during w (snd (snd (invoke mk call c w start_ts end_ts))) ! 0)
       \<and> url (requests_during w (snd (snd (invoke mk call c w start_ts end_ts))) ! 2) =
           url (requests_during w (snd (snd (invoke mk call c w start_ts end_ts))) ! 0)
       \<and> headers (requests_during w (snd (snd (invoke mk call c w start_ts end_ts))) ! 0) =
           [(''Content-Type'', Literal ''application/json''),
            (''Authorization'', Bearer (access_token c))]
       \<and> headers (requests_during w (snd (snd (invoke mk call c w start_ts end_ts))) ! 2) =
           [(''Content-Type'', Literal ''application/json''), (''Authorization'', Bearer t)]
       \<and> clock_reads (snd (snd (invoke mk call c w start_ts end_ts))) =
           clock_reads w + (if start_ts = None then 1 else 0) + (if end_ts = None then 1 else 0)"
  by (simp add: invoke_refresh [OF assms] requests_during_def api_request_def
        after_window_def default_start_ts_def default_end_ts_def datetime_now_def
        split: option.split)


lemma http_post_sent: "sent (snd (http_post rq w)) = sent w @ [rq]"
  by (simp add: http_post_def split: list.split)

lemma refresh_sent:
  "\<exists>xs. sent (snd (snd (refresh_token_if_needed r c w))) = sent w @ xs"
proof -
  let ?W = "w\<lparr>pending := tl (pending w), sent := sent w @ [token_request c]\<rparr>"
  let ?W2 = "?W\<lparr>pending := tl (pending ?W), sent := sent ?W @ [token_request c]\<rparr>"
  obtain res1 where g1: "get_access_token c w = (res1, c, ?W)"
    using get_access_token_shape [of c w] by blast
  obtain res2 where g2: "get_access_token c ?W = (res2, c, ?W2)"
    using get_access_token_shape [of c ?W] by blast
  have "snd (snd (refresh_token_if_needed r c w)) = w \<or>
        snd (snd (refresh_token_if_needed r c w)) = ?W \<or>
        snd (snd (refresh_token_if_needed r c w)) = ?W2"
    using g1 g2
    by (auto simp: refresh_token_if_needed_def refresh_try_def refresh_except_def
          response_json_def split: option.splits sum.splits if_splits bool.splits)
  then show ?thesis
    by (elim disjE) simp_all
qed

lemma template_first_request:
  assumes "truthy (access_token c)"
  shows "\<exists>xs. requests_during w (snd (snd (resource_template mk m path what field body c w s0 e0))) =
           api_request c path (body (window_start s0 w) (window_end s0 e0 w)) # xs"
proof -
  let ?w3 = "after_window s0 e0 w"
  let ?rq = "api_request c path (body (window_start s0 w) (window_end s0 e0 w))"
  obtain x w4 where p: "http_post ?rq ?w3 = (x, w4)"
    by (cases "http_post ?rq ?w3") auto
  from http_post_sent [of ?rq ?w3] p have s4: "sent w4 = sent w @ [?rq]"
    by (simp add: after_window_frame)
  show ?thesis
  proof (cases x)
    case (Inl e)
    with p s4 show ?thesis
      by (simp add: template_ready [OF assms] requests_during_def)
  next
    case (Inr r)
    obtain y c2 w5 where q: "refresh_token_if_needed r c w4 = (y, c2, w5)"
      by (cases "refresh_token_if_needed r c w4") auto
    from refresh_sent [of r c w4] q obtain xs where s5: "sent w5 = sent w4 @ xs"
      by auto
    show ?thesis
    proof (cases y)
      case (Inl e)
      with p Inr q s4 s5 show ?thesis
        by (simp add: template_ready [OF assms] requests_during_def)
    next
      case b: (Inr refreshed)
      show ?thesis
      proof (cases refreshed)
        case False
        with p Inr q b s4 s5 show ?thesis
          by (simp add: template_ready [OF assms] requests_during_def)
      next
        case True
        let ?rq2 = "api_request c2 path (body (window_start s0 w) (window_end s0 e0 w))"
        from http_post_sent [of ?rq2 w5] have "sent (snd (http_post ?rq2 w5)) = sent w5 @ [?rq2]" .
        with True p Inr q b s4 s5 show ?thesis
          by (cases "http_post ?rq2 w5")
             (auto simp: template_ready [OF assms] requests_during_def split: sum.splits)
      qed
    qed
  qed
qed

lemma invoke_first_request:
  assumes "truthy (access_token c)"
  shows "hd (requests_during w (snd (snd (invoke mk call c w s0 e0)))) =
           api_request c (call_path call)
             (call_body call (window_start s0 w) (window_end s0 e0 w))"
  using template_first_request [OF assms, of w mk "call_model call" "call_path call"
      "call_what call" "call_field call" "call_body call" s0 e0]
  by (auto simp: invoke_template)


lemma window_simps:
  "window_start None w = int_timestamp w (wall_clock w (clock_reads w) - one_day)"
  "window_start (Some s) w = s"
  "window_end None None w = int_timestamp w (wall_clock w (Suc (clock_reads w)))"
  "window_end (Some s) None w = int_timestamp w (wall_clock w (clock_reads w))"
  "window_end start_ts (Some e) w = e"
  by (simp_all add: window_start_def window_end_def default_start_ts_def default_end_ts_def
        datetime_now_def int_timestamp_def)

lemma body_entry_window:
  "body_entry (api_request c path (call_body call s e)) ''start_ts'' = Some (JInt s)"
  "body_entry (api_request c path (call_body call s e)) ''end_ts'' = Some (JInt e)"
  by (cases call; simp add: api_request_def body_entry_def)+

lemma seconds_apart:
  fixes a b :: int
  assumes "one_day \<le> a" and "a \<le> b"
  shows "(if 0 \<le> b then b div 1000000 else - ((- b) div 1000000)) - 86400
         - (if 0 \<le> a - one_day then (a - one_day) div 1000000
            else - ((- (a - one_day)) div 1000000)) =
         b div 1000000 - a div 1000000"
proof -
  have "(a - 86400 * 1000000) div 1000000 = a div 1000000 - 86400"
    by (simp add: div_diff)
  moreover have "0 \<le> b" "0 \<le> a - one_day"
    using assms by (simp_all add: one_day_def)
  ultimately show ?thesis
    by (simp add: one_day_def)
qed

text \<open>
  C5, as the code has it. The first request of a client that holds a token carries the
  window the call computes. An omitted \<^verbatim>\<open>start_ts\<close> is the first clock reading less one
  day, as truncated POSIX seconds; an omitted \<^verbatim>\<open>end_ts\<close> is the next clock reading; a
  supplied bound is passed as it is and does not influence the other. With both omitted,
  a conversion to POSIX time that is the same a day earlier, and a clock that does not go
  back, \<^verbatim>\<open>end_ts - 86400 - start_ts\<close> is the number of second boundaries between the two
  readings: zero, and \<^verbatim>\<open>start_ts = end_ts - 86400\<close>, when both fall in the same second.
\<close>

theorem default_time_window:
  assumes "truthy (access_token c)"
  shows "body_entry (hd (requests_during w (snd (snd (invoke mk call c w start_ts end_ts)))))
           ''start_ts'' = Some (JInt (window_start start_ts w))
       \<and> body_entry (hd (requests_during w (snd (snd (invoke mk call c w start_ts end_ts)))))
           ''end_ts'' = Some (JInt (window_end start_ts end_ts w))
       \<and> window_start None w = int_timestamp w (wall_clock w (clock_reads w) - one_day)
       \<and> window_end None None w = int_timestamp w (wall_clock w (Suc (clock_reads w)))
       \<and> window_start (Some s) w = s
       \<and> window_end (Some s) None w = int_timestamp w (wall_clock w (clock_reads w))
       \<and> window_end start_ts (Some e) w = e
       \<and> (posix_of_local w (wall_clock w (clock_reads w) - one_day) =
            posix_of_local w (wall_clock w (clock_reads w)) - one_day \<and>
          one_day \<le> posix_of_local w (wall_clock w (clock_reads w)) \<and>
          posix_of_local w (wall_clock w (clock_reads w)) \<le>
            posix_of_local w (wall_clock w (Suc (clock_reads w))) \<longrightarrow>
          window_end None None w - 86400 - window_start None w =
            posix_of_local w (wall_clock w (Suc (clock_reads w))) div 1000000 -
            posix_of_local w (wall_clock w (clock_reads w)) div 1000000)"
proof -
  have "posix_of_local w (wall_clock w (clock_reads w) - one_day) =
            posix_of_local w (wall_clock w (clock_reads w)) - one_day \<and>
          one_day \<le> posix_of_local w (wall_clock w (clock_reads w)) \<and>
          posix_of_local w (wall_clock w (clock_reads w)) \<le>
            posix_of_local w (wall_clock w (Suc (clock_reads w))) \<longrightarrow>
          window_end None None w - 86400 - window_start None w =
            posix_of_local w (wall_clock w (Suc (clock_reads w))) div 1000000 -
            posix_of_local w (wall_clock w (clock_reads w)) div 1000000"
    using seconds_apart [of "posix_of_local w (wall_clock w (clock_reads w))"
        "posix_of_local w (wall_clock w (Suc (clock_reads w)))"]
    by (simp add: window_simps int_timestamp_def Let_def)
  then show ?thesis
    by (simp add: invoke_first_request [OF assms] body_entry_window window_simps)
qed

text \<open>
  Where the sentence of C5 fails as written: the first reading is the last microsecond of
  a second and the second reading is in the next second, so the two defaults are 86401
  seconds apart.
\<close>

theorem default_time_window_counterexample:
  "body_entry (hd (requests_during
       (sample_world [json_response 200 (JObj [])] (clock_from 1700000000999999 1))
       (snd (snd (get_fleet_orders keep_fields sample_client
          (sample_world [json_response 200 (JObj [])] (clock_from 1700000000999999 1))
          0 10 [7] None None))))) ''start_ts'' = Some (JInt 1699913600)
   \<and> body_entry (hd (requests_during
       (sample_world [json_response 200 (JObj [])] (clock_from 1700000000999999 1))
       (snd (snd (get_fleet_orders keep_fields sample_client
          (sample_world [json_response 200 (JObj [])] (clock_from 1700000000999999 1))
          0 10 [7] None None))))) ''end_ts'' = Some (JInt 1700000001)
   \<and> (1699913600 :: int) \<noteq> 1700000001 - 86400"
  by (simp add: get_fleet_orders_def ensure_token_def default_start_ts_def default_end_ts_def
        datetime_now_def int_timestamp_def one_day_def http_post_def
        refresh_token_if_needed_def refresh_try_def refresh_except_def response_json_def
        records_of_def requests_during_def body_entry_def
        sample_client_def sample_world_def json_response_def clock_from_def)



theorem retry_repeats_the_request_witness:
  "truthy (access_token sample_client)
   \<and> granted (token_response (JStr ''T1'')) = Some (JStr ''T1'')
   \<and> length (requests_during (sample_world [html_response 401, token_response (JStr ''T1''), html_response 401] (clock_at 0)) (snd (snd (get_vehicles keep_fields sample_client
        (sample_world [html_response 401, token_response (JStr ''T1''), html_response 401] (clock_at 0))
        0 10 7 (EnumMember active) None None)))) = 3
   \<and> payload (requests_during (sample_world [html_response 401, token_response (JStr ''T1''), html_response 401] (clock_at 0)) (snd (snd (get_vehicles keep_fields sample_client
        (sample_world [html_response 401, token_response (JStr ''T1''), html_response 401] (clock_at 0))
        0 10 7 (EnumMember active) None None))) ! 2) =
       payload (requests_during (sample_world [html_response 401, token_response (JStr ''T1''), html_response 401] (clock_at 0)) (snd (snd (get_vehicles keep_fields sample_client
        (sample_world [html_response 401, token_response (JStr ''T1''), html_response 401] (clock_at 0))
        0 10 7 (EnumMember active) None None))) ! 0)
   \<and> url (requests_during (sample_world [html_response 401, token_response (JStr ''T1''), html_response 401] (clock_at 0)) (snd (snd (get_vehicles keep_fields sample_client
        (sample_world [html_response 401, token_response (JStr ''T1''), html_response 401] (clock_at 0))
        0 10 7 (EnumMember active) None None))) ! 2) =
       url (requests_during (sample_world [html_response 401, token_response (JStr ''T1''), html_response 401] (clock_at 0)) (snd (snd (get_vehicles keep_fields sample_client
        (sample_world [html_response 401, token_response (JStr ''T1''), html_response 401] (clock_at 0))
        0 10 7 (EnumMember active) None None))) ! 0)
   \<and> headers (requests_during (sample_world [html_response 401, token_response (JStr ''T1''), html_response 401] (clock_at 0)) (snd (snd (get_vehicles keep_fields sample_client
        (sample_world [html_response 401, token_response (JStr ''T1''), html_response 401] (clock_at 0))
        0 10 7 (EnumMember active) None None))) ! 2) =
       [(''Content-Type'', Literal ''application/json''), (''Authorization'', Bearer (JStr ''T1''))]
   \<and> clock_reads (snd (snd (get_vehicles keep_fields sample_client
        (sample_world [html_response 401, token_response (JStr ''T1''), html_response 401] (clock_at 0))
        0 10 7 (EnumMember active) None None))) = 2"
proof -
  let ?call = "GetVehicles 0 10 7 (EnumMember active)"
  let ?tr = "token_response (JStr ''T1'')"
  have h1: "truthy (access_token sample_client)"
    by (simp add: sample_client_def)
  have h4: "granted ?tr = Some (JStr ''T1'')"
    by (simp add: granted_def token_response_def json_response_def)
  have p1: "pending (sample_world [html_response 401, token_response (JStr ''T1''), html_response 401] (clock_at 0)) = [html_response 401, ?tr, html_response 401]"
    by (simp add: sample_world_def)
  have t1: "status_code (html_response 401) = 401 \<or> has_code_503 (html_response 401)"
    by (simp add: html_response_def)
  have c0: "clock_reads (sample_world [html_response 401, token_response (JStr ''T1''), html_response 401] (clock_at 0)) = 0"
    by (simp add: sample_world_def)
  from retry_repeats_the_request [OF h1 p1 t1 h4, where mk = keep_fields and call = ?call
      and start_ts = None and end_ts = None] h1 h4 c0
  show ?thesis by simp
qed


theorem default_time_window_witness:
  "truthy (access_token sample_client)
   \<and> body_entry (hd (requests_during (sample_world [json_response 200 (JObj [])] (clock_at 1700000000500000))
        (snd (snd (get_drivers keep_fields sample_client
        (sample_world [json_response 200 (JObj [])] (clock_at 1700000000500000))
        0 10 7 (RawValue (JStr ''active'')) None None))))) ''end_ts'' = Some (JInt 1700000000)
   \<and> body_entry (hd (requests_during (sample_world [json_response 200 (JObj [])] (clock_at 1700000000500000))
        (snd (snd (get_drivers keep_fields sample_client
        (sample_world [json_response 200 (JObj [])] (clock_at 1700000000500000))
        0 10 7 (RawValue (JStr ''active'')) None None))))) ''start_ts'' = Some (JInt (1700000000 - 86400))
   \<and> body_entry (hd (requests_during (sample_world [json_response 200 (JObj [])] (clock_at 1700000000500000))
        (snd (snd (get_drivers keep_fields sample_client
        (sample_world [json_response 200 (JObj [])] (clock_at 1700000000500000))
        0 10 7 (RawValue (JStr ''active'')) (Some 5) None))))) ''start_ts'' = Some (JInt 5)
   \<and> body_entry (hd (requests_during (sample_world [json_response 200 (JObj [])] (clock_at 1700000000500000))
        (snd (snd (get_drivers keep_fields sample_client
        (sample_world [json_response 200 (JObj [])] (clock_at 1700000000500000))
        0 10 7 (RawValue (JStr ''active'')) (Some 5) None))))) ''end_ts'' = Some (JInt 1700000000)
   \<and> body_entry (hd (requests_during (sample_world [json_response 200 (JObj [])] (clock_at 1700000000500000))
        (snd (snd (get_drivers keep_fields sample_client
        (sample_world [json_response 200 (JObj [])] (clock_at 1700000000500000))
        0 10 7 (RawValue (JStr ''active'')) None (Some 5)))))) ''start_ts'' = Some (JInt (1700000000 - 86400))
   \<and> body_entry (hd (requests_during (sample_world [json_response 200 (JObj [])] (clock_at 1700000000500000))
        (snd (snd (get_drivers keep_fields sample_client
        (sample_world [json_response 200 (JObj [])] (clock_at 1700000000500000))
        0 10 7 (RawValue (JStr ''active'')) None (Some 5)))))) ''end_ts'' = Some (JInt 5)
   \<and> window_end None None (sample_world [json_response 200 (JObj [])] (clock_at 1700000000500000)) - 86400 - window_start None (sample_world [json_response 200 (JObj [])] (clock_at 1700000000500000)) = 0"
proof -
  let ?call = "GetDrivers 0 10 7 (RawValue (JStr ''active''))"
  let ?w = "(sample_world [json_response 200 (JObj [])] (clock_at 1700000000500000))"
  have h1: "truthy (access_token sample_client)"
    by (simp add: sample_client_def)
  have w: "wall_clock ?w = clock_at 1700000000500000" "posix_of_local ?w = (\<lambda>t. t)"
    by (simp_all add: sample_world_def)
  note T = default_time_window [OF h1, where w = ?w and mk = keep_fields and call = ?call]
  have ts: "int_timestamp ?w (wall_clock ?w (clock_reads ?w) - one_day) = 1700000000 - 86400"
    "int_timestamp ?w (wall_clock ?w (Suc (clock_reads ?w))) = 1700000000"
    "int_timestamp ?w (wall_clock ?w (clock_reads ?w)) = 1700000000"
    by (simp_all add: w int_timestamp_def clock_at_def one_day_def)
  have pre: "posix_of_local ?w (wall_clock ?w (clock_reads ?w) - one_day) =
            posix_of_local ?w (wall_clock ?w (clock_reads ?w)) - one_day \<and>
          one_day \<le> posix_of_local ?w (wall_clock ?w (clock_reads ?w)) \<and>
          posix_of_local ?w (wall_clock ?w (clock_reads ?w)) \<le>
            posix_of_local ?w (wall_clock ?w (Suc (clock_reads ?w)))"
    by (simp add: w clock_at_def one_day_def)
  have sec: "posix_of_local ?w (wall_clock ?w (Suc (clock_reads ?w))) div 1000000 -
            posix_of_local ?w (wall_clock ?w (clock_reads ?w)) div 1000000 = 0"
    by (simp add: w clock_at_def)
  have a: "body_entry (hd (requests_during ?w
             (snd (snd (invoke keep_fields ?call sample_client ?w None None))))) ''end_ts'' =
           Some (JInt 1700000000)"
    "body_entry (hd (requests_during ?w
             (snd (snd (invoke keep_fields ?call sample_client ?w None None))))) ''start_ts'' =
           Some (JInt (1700000000 - 86400))"
    using T [where start_ts = None and end_ts = None] ts by metis+
  have b: "body_entry (hd (requests_during ?w
             (snd (snd (invoke keep_fields ?call sample_client ?w (Some 5) None))))) ''start_ts'' =
           Some (JInt 5)"
    "body_entry (hd (requests_during ?w
             (snd (snd (invoke keep_fields ?call sample_client ?w (Some 5) None))))) ''end_ts'' =
           Some (JInt 1700000000)"
    using T [where start_ts = "Some 5" and end_ts = None and s = 5] ts by metis+
  have c: "body_entry (hd (requests_during ?w
             (snd (snd (invoke keep_fields ?call sample_client ?w None (Some 5)))))) ''start_ts'' =
           Some (JInt (1700000000 - 86400))"
    "body_entry (hd (requests_during ?w
             (snd (snd (invoke keep_fields ?call sample_client ?w None (Some 5)))))) ''end_ts'' =
           Some (JInt 5)"
    using T [where start_ts = None and end_ts = "Some 5" and e = 5] ts by metis+
  have d: "window_end None None ?w - 86400 - window_start None ?w = 0"
    using T [where start_ts = None and end_ts = None] pre sec by metis
  from h1 a b c d show ?thesis
    by simp
qed

section \<open>Results and filters\<close>

lemma records_of_missing:
  assumes "body_json r = Some (JObj kvs)"
    and "map_of kvs ''data'' = None \<or>
         (\<exists>d. map_of kvs ''data'' = Some (JObj d) \<and> map_of d field = None)"
  shows "records_of mk m field r = Inr []"
  using assms by (auto simp: records_of_def response_json_def)

text \<open>
  C6, as the code has it. The response a call ends with (the first one when no refresh
  is asked for, the retried one after a refresh) has status 200 and a JSON object as
  body; if the object has no \<^verbatim>\<open>data\<close>, or its \<^verbatim>\<open>data\<close> is an object without the
  method's list field, every method returns the empty list.
\<close>

theorem missing_data_is_no_results:
  assumes "truthy (access_token c)"
    and "status_code r = 200"
    and "body_json r = Some (JObj kvs)"
    and "map_of kvs ''data'' = None \<or>
         (\<exists>d. map_of kvs ''data'' = Some (JObj d) \<and> map_of d (call_field call) = None)"
  shows "(pending w = r # rs \<and> \<not> has_code_503 r \<longrightarrow>
            fst (invoke mk call c w start_ts end_ts) = Inr [])
       \<and> (pending w = q # tr # r # rs \<and> (status_code q = 401 \<or> has_code_503 q) \<and>
            granted tr = Some t \<longrightarrow>
            fst (invoke mk call c w start_ts end_ts) = Inr [])"
proof -
  have f: "finish mk (call_model call) (call_what call) (call_field call) r = Inr []"
    using assms(2) records_of_missing [OF assms(3,4)] by (simp add: finish_def)
  have 1: "pending w = r # rs \<and> \<not> has_code_503 r \<longrightarrow>
            fst (invoke mk call c w start_ts end_ts) = Inr []"
    using invoke_no_refresh [of c w r rs mk call start_ts end_ts] assms(1,2) f by simp
  have 2: "pending w = q # tr # r # rs \<and> (status_code q = 401 \<or> has_code_503 q) \<and>
            granted tr = Some t \<longrightarrow>
            fst (invoke mk call c w start_ts end_ts) = Inr []"
    using invoke_refresh [of c w q tr r rs t mk call start_ts end_ts] assms(1) f by simp
  from 1 2 show ?thesis by blast
qed

text \<open>
  Where the sentence of C6 fails as written: a \<^verbatim>\<open>data\<close> that is present and malformed
  is an error. \<^verbatim>\<open>{"data": null}\<close> raises on \<^verbatim>\<open>.get\<close>, and
  \<^verbatim>\<open>{"data": {"vehicles": null}}\<close> raises on the iteration.
\<close>

theorem missing_data_is_no_results_counterexample:
  "status_code (json_response 200 (JObj [(''data'', JNull)])) = 200
   \<and> fst (get_vehicles keep_fields sample_client
        (sample_world [json_response 200 (JObj [(''data'', JNull)])] (clock_at 0))
        0 10 7 (EnumMember active) (Some 0) (Some 1)) = Inl AttributeError
   \<and> fst (get_vehicles keep_fields sample_client
        (sample_world [json_response 200 (JObj [(''data'', JObj [(''vehicles'', JNull)])])]
           (clock_at 0))
        0 10 7 (EnumMember active) (Some 0) (Some 1)) = Inl TypeError"
  by (simp add: get_vehicles_def ensure_token_def default_start_ts_def default_end_ts_def
        http_post_def refresh_token_if_needed_def refresh_try_def refresh_except_def
        response_json_def records_of_def
        sample_client_def sample_world_def json_response_def)

lemma PortalStatus_value_cases:
  "PortalStatus_value e = ''active'' \<or> PortalStatus_value e = ''inactive''"
  by (cases e) simp_all

lemma body_entry_portal_status:
  "body_entry (api_request c path
      (call_body (GetVehicles offset limit company_id ps) s e)) ''portal_status'' =
     Some (portal_status_value ps)"
  "body_entry (api_request c path
      (call_body (GetDrivers offset limit company_id ps) s e)) ''portal_status'' =
     Some (portal_status_value ps)"
  by (simp_all add: api_request_def body_entry_def)

text \<open>
  C8. The request of \<^verbatim>\<open>get_vehicles\<close> and of \<^verbatim>\<open>get_drivers\<close> carries, under
  \<^verbatim>\<open>portal_status\<close>, the string \<^verbatim>\<open>"active"\<close> when the caller passes
  \<^verbatim>\<open>PortalStatus.active\<close> or the string \<^verbatim>\<open>"active"\<close> itself, and the string
  \<^verbatim>\<open>"inactive"\<close> when the caller passes \<^verbatim>\<open>PortalStatus.inactive\<close> or the string
  \<^verbatim>\<open>"inactive"\<close> itself.
\<close>

theorem portal_status_as_string:
  assumes "truthy (access_token c)"
  shows "body_entry (hd (requests_during w (snd (snd
            (get_vehicles mk c w offset limit company_id (EnumMember active) start_ts end_ts)))))
           ''portal_status'' = Some (JStr ''active'')
       \<and> body_entry (hd (requests_during w (snd (snd
            (get_vehicles mk c w offset limit company_id (EnumMember inactive) start_ts end_ts)))))
           ''portal_status'' = Some (JStr ''inactive'')
       \<and> body_entry (hd (requests_during w (snd (snd
            (get_vehicles mk c w offset limit company_id (RawValue (JStr ''active'')) start_ts end_ts)))))
           ''portal_status'' = Some (JStr ''active'')
       \<and> body_entry (hd (requests_during w (snd (snd
            (get_vehicles mk c w offset limit company_id (RawValue (JStr ''inactive'')) start_ts end_ts)))))
           ''portal_status'' = Some (JStr ''inactive'')
       \<and> body_entry (hd (requests_during w (snd (snd
            (get_drivers mk c w offset limit company_id (EnumMember active) start_ts end_ts)))))
           ''portal_status'' = Some (JStr ''active'')
       \<and> body_entry (hd (requests_during w (snd (snd
            (get_drivers mk c w offset limit company_id (EnumMember inactive) start_ts end_ts)))))
           ''portal_status'' = Some (JStr ''inactive'')
       \<and> body_entry (hd (requests_during w (snd (snd
            (get_drivers mk c w offset limit company_id (RawValue (JStr ''active'')) start_ts end_ts)))))
           ''portal_status'' = Some (JStr ''active'')
       \<and> body_entry (hd (requests_during w (snd (snd
            (get_drivers mk c w offset limit company_id (RawValue (JStr ''inactive'')) start_ts end_ts)))))
           ''portal_status'' = Some (JStr ''inactive'')
       \<and> PortalStatus_value active = ''active''
       \<and> PortalStatus_value inactive = ''inactive''"
  using
    invoke_first_request [OF assms, of w mk "GetVehicles offset limit company_id (EnumMember active)"
      start_ts end_ts]
    invoke_first_request [OF assms, of w mk "GetVehicles offset limit company_id (EnumMember inactive)"
      start_ts end_ts]
    invoke_first_request [OF assms, of w mk "GetVehicles offset limit company_id (RawValue (JStr ''active''))"
      start_ts end_ts]
    invoke_first_request [OF assms, of w mk "GetVehicles offset limit company_id (RawValue (JStr ''inactive''))"
      start_ts end_ts]
    invoke_first_request [OF assms, of w mk "GetDrivers offset limit company_id (EnumMember active)"
      start_ts end_ts]
    invoke_first_request [OF assms, of w mk "GetDrivers offset limit company_id (EnumMember inactive)"
      start_ts end_ts]
    invoke_first_request [OF assms, of w mk "GetDrivers offset limit company_id (RawValue (JStr ''active''))"
      start_ts end_ts]
    invoke_first_request [OF assms, of w mk "GetDrivers offset limit company_id (RawValue (JStr ''inactive''))"
      start_ts end_ts]
  by (simp add: api_request_def body_entry_def)

theorem missing_data_is_no_results_witness:
  "truthy (access_token sample_client)
   \<and> map_of [] ''data'' = (None :: json option)
   \<and> fst (get_fleet_orders keep_fields sample_client
        (sample_world [json_response 200 (JObj [])] (clock_at 0)) 0 10 [7] None None) = Inr []
   \<and> fst (get_fleet_state_logs keep_fields sample_client
        (sample_world [json_response 200 (JObj [(''data'', JObj [])])] (clock_at 0))
        0 10 7 None None) = Inr []
   \<and> fst (get_drivers keep_fields sample_client
        (sample_world [html_response 401, token_response (JStr ''T1''),
           json_response 200 (JObj [])] (clock_at 0))
        0 10 7 (EnumMember inactive) None None) = Inr []"
proof -
  let ?r = "json_response 200 (JObj [])"
  let ?r' = "json_response 200 (JObj [(''data'', JObj [])])"
  let ?tr = "token_response (JStr ''T1'')"
  have h1: "truthy (access_token sample_client)"
    by (simp add: sample_client_def)
  have r: "status_code ?r = 200" "body_json ?r = Some (JObj [])" "\<not> has_code_503 ?r"
    "map_of [] ''data'' = None \<or>
       (\<exists>d. map_of [] ''data'' = Some (JObj d) \<and> map_of d (call_field call) = None)" for call
    by (simp_all add: json_response_def has_code_503_def)
  have r': "status_code ?r' = 200" "body_json ?r' = Some (JObj [(''data'', JObj [])])"
    "\<not> has_code_503 ?r'"
    "map_of [(''data'', JObj [])] ''data'' = None \<or>
       (\<exists>d. map_of [(''data'', JObj [])] ''data'' = Some (JObj d) \<and>
            map_of d (call_field call) = None)" for call
    by (simp_all add: json_response_def has_code_503_def)
  have g: "granted ?tr = Some (JStr ''T1'')"
    by (simp add: granted_def token_response_def json_response_def)
  have q: "status_code (html_response 401) = 401 \<or> has_code_503 (html_response 401)"
    by (simp add: html_response_def)
  have p: "pending (sample_world [?r] (clock_at 0)) = [?r]"
    "pending (sample_world [?r'] (clock_at 0)) = [?r']"
    "pending (sample_world [html_response 401, ?tr, ?r] (clock_at 0)) =
       [html_response 401, ?tr, ?r]"
    by (simp_all add: sample_world_def)
  have a: "fst (invoke keep_fields (GetFleetOrders 0 10 [7]) sample_client
              (sample_world [?r] (clock_at 0)) None None) = Inr []"
    using missing_data_is_no_results [OF h1 r(1,2,4), where w = "sample_world [?r] (clock_at 0)"
        and rs = "[]" and mk = keep_fields and call = "GetFleetOrders 0 10 [7]"
        and start_ts = None and end_ts = None] p r(3)
    by blast
  have b: "fst (invoke keep_fields (GetFleetStateLogs 0 10 7) sample_client
              (sample_world [?r'] (clock_at 0)) None None) = Inr []"
    using missing_data_is_no_results [OF h1 r'(1,2,4), where w = "sample_world [?r'] (clock_at 0)"
        and rs = "[]" and mk = keep_fields and call = "GetFleetStateLogs 0 10 7"
        and start_ts = None and end_ts = None] p r'(3)
    by blast
  have c: "fst (invoke keep_fields (GetDrivers 0 10 7 (EnumMember inactive)) sample_client
              (sample_world [html_response 401, ?tr, ?r] (clock_at 0)) None None) = Inr []"
    using missing_data_is_no_results [OF h1 r(1,2,4),
        where w = "sample_world [html_response 401, ?tr, ?r] (clock_at 0)"
        and q = "html_response 401" and tr = ?tr and t = "JStr ''T1''"
        and rs = "[]" and mk = keep_fields and call = "GetDrivers 0 10 7 (EnumMember inactive)"
        and start_ts = None and end_ts = None] p q g
    by blast
  from h1 a b c show ?thesis
    by simp
qed

theorem portal_status_as_string_witness:
  "truthy (access_token sample_client)
   \<and> body_entry (hd (requests_during (sample_world [] (clock_at 0)) (snd (snd
        (get_vehicles keep_fields sample_client (sample_world [] (clock_at 0))
           0 10 7 (EnumMember active) None None))))) ''portal_status'' = Some (JStr ''active'')
   \<and> body_entry (hd (requests_during (sample_world [] (clock_at 0)) (snd (snd
        (get_vehicles keep_fields sample_client (sample_world [] (clock_at 0))
           0 10 7 (EnumMember inactive) None None))))) ''portal_status'' = Some (JStr ''inactive'')
   \<and> body_entry (hd (requests_during (sample_world [] (clock_at 0)) (snd (snd
        (get_vehicles keep_fields sample_client (sample_world [] (clock_at 0))
           0 10 7 (RawValue (JStr ''active'')) None None))))) ''portal_status'' = Some (JStr ''active'')
   \<and> body_entry (hd (requests_during (sample_world [] (clock_at 0)) (snd (snd
        (get_vehicles keep_fields sample_client (sample_world [] (clock_at 0))
           0 10 7 (RawValue (JStr ''inactive'')) None None))))) ''portal_status'' = Some (JStr ''inactive'')
   \<and> body_entry (hd (requests_during (sample_world [] (clock_at 0)) (snd (snd
        (get_drivers keep_fields sample_client (sample_world [] (clock_at 0))
           0 10 7 (EnumMember active) None None))))) ''portal_status'' = Some (JStr ''active'')
   \<and> body_entry (hd (requests_during (sample_world [] (clock_at 0)) (snd (snd
        (get_drivers keep_fields sample_client (sample_world [] (clock_at 0))
           0 10 7 (EnumMember inactive) None None))))) ''portal_status'' = Some (JStr ''inactive'')
   \<and> body_entry (hd (requests_during (sample_world [] (clock_at 0)) (snd (snd
        (get_drivers keep_fields sample_client (sample_world [] (clock_at 0))
           0 10 7 (RawValue (JStr ''active'')) None None))))) ''portal_status'' = Some (JStr ''active'')
   \<and> body_entry (hd (requests_during (sample_world [] (clock_at 0)) (snd (snd
        (get_drivers keep_fields sample_client (sample_world [] (clock_at 0))
           0 10 7 (RawValue (JStr ''inactive'')) None None))))) ''portal_status'' = Some (JStr ''inactive'')"
proof -
  have h1: "truthy (access_token sample_client)"
    by (simp add: sample_client_def)
  note T = portal_status_as_string [OF h1, where w = "sample_world [] (clock_at 0)"
      and mk = keep_fields and offset = 0 and limit = 10 and company_id = 7
      and start_ts = None and end_ts = None]
  show ?thesis
    using h1 T by (intro conjI) (elim conjE, assumption)+
qed

section \<open>The token held by the client\<close>

lemma granted_truthy: "granted g = Some t \<Longrightarrow> truthy t"
  by (auto simp: granted_def split: if_splits option.splits json.splits)

lemma kept_or_granted_refl: "kept_or_granted c w c"
  by (simp add: kept_or_granted_def)

lemma kept_or_granted_I:
  "g \<in> set (pending w) \<Longrightarrow> granted g = Some t \<Longrightarrow> kept_or_granted c w (c\<lparr>access_token := t\<rparr>)"
  unfolding kept_or_granted_def list_ex_iff
  by (rule disjI2, rule bexI [of _ g]) simp_all

lemma kept_or_granted_trans:
  assumes "kept_or_granted c w c1" and "kept_or_granted c1 w1 c2"
    and "set (pending w1) \<subseteq> set (pending w)"
  shows "kept_or_granted c w c2"
  using assms
  by (auto simp: kept_or_granted_def list_ex_iff split: option.splits)

lemma kept_or_granted_truthy:
  "kept_or_granted c w c' \<Longrightarrow> truthy (access_token c) \<Longrightarrow> truthy (access_token c')"
  by (auto simp: kept_or_granted_def list_ex_iff granted_truthy split: option.splits)

lemma kept_or_granted_string:
  assumes "kept_or_granted c w c'" and "nonempty_string (access_token c)"
    and "list_all grants_strings (pending w)"
  shows "nonempty_string (access_token c')"
  using assms
  by (auto simp: kept_or_granted_def list_ex_iff list_all_iff grants_strings_def
           split: option.splits)

lemma get_access_token_pending:
  "set (pending (snd (snd (get_access_token c w)))) \<subseteq> set (pending w)"
  by (cases "pending w") (auto simp: get_access_token_world)

lemma http_post_pending: "set (pending (snd (http_post rq w))) \<subseteq> set (pending w)"
  by (auto simp: http_post_def split: list.splits)

lemma ensure_token_shape:
  "kept_or_granted c w (fst (snd (ensure_token c w))) \<and>
   set (pending (snd (snd (ensure_token c w)))) \<subseteq> set (pending w) \<and>
   (\<forall>u. fst (ensure_token c w) = Inr u \<longrightarrow> truthy (access_token (fst (snd (ensure_token c w)))))"
proof (cases "truthy (access_token c)")
  case True
  then show ?thesis
    by (simp add: ensure_token_def kept_or_granted_refl)
next
  case False
  obtain res where g: "get_access_token c w =
      (res, c, w\<lparr>pending := tl (pending w), sent := sent w @ [token_request c]\<rparr>)"
    and t: "\<And>t. res = Inr t \<Longrightarrow> truthy t \<and> (\<exists>r rs. pending w = r # rs \<and> granted r = Some t)"
    using get_access_token_shape [of c w] by blast
  have sub: "set (tl (pending w)) \<subseteq> set (pending w)"
    by (cases "pending w") auto
  show ?thesis
  proof (cases res)
    case (Inl e)
    with False g sub show ?thesis
      by (simp add: ensure_token_def kept_or_granted_refl)
  next
    case (Inr tok)
    with t [of tok] obtain r rs where "pending w = r # rs" "granted r = Some tok" "truthy tok"
      by blast
    then have "kept_or_granted c w (c\<lparr>access_token := tok\<rparr>)"
      using kept_or_granted_I [of r w tok c] by simp
    with False g Inr sub \<open>truthy tok\<close> show ?thesis
      by (simp add: ensure_token_def)
  qed
qed

lemma refresh_shape:
  "kept_or_granted c w (fst (snd (refresh_token_if_needed r c w))) \<and>
   set (pending (snd (snd (refresh_token_if_needed r c w)))) \<subseteq> set (pending w)"
proof -
  let ?W = "w\<lparr>pending := tl (pending w), sent := sent w @ [token_request c]\<rparr>"
  let ?W2 = "?W\<lparr>pending := tl (pending ?W), sent := sent ?W @ [token_request c]\<rparr>"
  obtain res1 where g1: "get_access_token c w = (res1, c, ?W)"
    and t1: "\<And>t. res1 = Inr t \<Longrightarrow> truthy t \<and> (\<exists>r rs. pending w = r # rs \<and> granted r = Some t)"
    using get_access_token_shape [of c w] by blast
  obtain res2 where g2: "get_access_token c ?W = (res2, c, ?W2)"
    and t2: "\<And>t. res2 = Inr t \<Longrightarrow> truthy t \<and> (\<exists>r rs. pending ?W = r # rs \<and> granted r = Some t)"
    using get_access_token_shape [of c ?W] by blast
  have sub: "set (tl (pending w)) \<subseteq> set (pending w)" "set (tl (tl (pending w))) \<subseteq> set (pending w)"
    by (cases "pending w"; cases "tl (pending w)"; auto)+
  have k1: "kept_or_granted c w (c\<lparr>access_token := t\<rparr>)" if "res1 = Inr t" for t
  proof -
    from t1 [OF that] obtain g rs where "pending w = g # rs" "granted g = Some t" by blast
    then have "g \<in> set (pending w)" by simp
    then show ?thesis using \<open>granted g = Some t\<close> by (rule kept_or_granted_I)
  qed
  have k2: "kept_or_granted c w (c\<lparr>access_token := t\<rparr>)" if "res2 = Inr t" for t
  proof -
    from t2 [OF that] obtain g rs where "pending ?W = g # rs" "granted g = Some t" by blast
    then have "g \<in> set (pending w)" using sub(1) by (cases "pending w") auto
    then show ?thesis using \<open>granted g = Some t\<close> by (rule kept_or_granted_I)
  qed
  have "(fst (snd (refresh_token_if_needed r c w)) = c \<or>
         (\<exists>t. (res1 = Inr t \<or> res2 = Inr t) \<and>
              fst (snd (refresh_token_if_needed r c w)) = c\<lparr>access_token := t\<rparr>)) \<and>
        (snd (snd (refresh_token_if_needed r c w)) = w \<or>
         snd (snd (refresh_token_if_needed r c w)) = ?W \<or>
         snd (snd (refresh_token_if_needed r c w)) = ?W2)"
    using g1 g2
    by (auto simp: refresh_token_if_needed_def refresh_try_def refresh_except_def
          response_json_def split: option.splits sum.splits if_splits bool.splits)
  with k1 k2 sub kept_or_granted_refl [of c w] show ?thesis
    by (elim conjE disjE exE) auto
qed


lemma default_ts_pending:
  "pending (snd (default_start_ts s0 w)) = pending w"
  "pending (snd (default_end_ts e0 w)) = pending w"
  by (simp_all add: default_start_ts_def default_end_ts_def datetime_now_def split: option.split)

lemma template_client:
  "kept_or_granted c w (fst (snd (resource_template mk m path what field body c w s0 e0)))"
proof -
  obtain res c1 w1 where e: "ensure_token c w = (res, c1, w1)"
    by (cases "ensure_token c w") auto
  from ensure_token_shape [of c w] e
  have k1: "kept_or_granted c w c1" and s1: "set (pending w1) \<subseteq> set (pending w)"
    by simp_all
  show ?thesis
  proof (cases res)
    case (Inl x)
    with e k1 show ?thesis
      by (simp add: resource_template_def)
  next
    case (Inr u)
    obtain s w2 where a: "default_start_ts s0 w1 = (s, w2)"
      by (cases "default_start_ts s0 w1") auto
    obtain t w3 where b: "default_end_ts e0 w2 = (t, w3)"
      by (cases "default_end_ts e0 w2") auto
    from a b default_ts_pending(1) [of s0 w1] default_ts_pending(2) [of e0 w2]
    have p3: "pending w3 = pending w1"
      by simp
    obtain x w4 where p: "http_post (api_request c1 path (body s t)) w3 = (x, w4)"
      by (cases "http_post (api_request c1 path (body s t)) w3") auto
    from http_post_pending [of "api_request c1 path (body s t)" w3] p p3 s1
    have s4: "set (pending w4) \<subseteq> set (pending w)"
      by auto
    show ?thesis
    proof (cases x)
      case (Inl err)
      with e Inr a b p k1 show ?thesis
        by (simp add: resource_template_def)
    next
      case r: (Inr r)
      obtain y c2 w5 where q: "refresh_token_if_needed r c1 w4 = (y, c2, w5)"
        by (cases "refresh_token_if_needed r c1 w4") auto
      from refresh_shape [of c1 w4 r] q have "kept_or_granted c1 w4 c2"
        by simp
      from k1 this s4 have k2: "kept_or_granted c w c2"
        by (rule kept_or_granted_trans)
      from e Inr a b p r q k2 show ?thesis
        by (auto simp: resource_template_def split: sum.splits prod.splits)
    qed
  qed
qed

lemma invoke_client:
  "kept_or_granted c w (fst (snd (invoke mk call c w start_ts end_ts)))"
  unfolding invoke_template by (rule template_client)

lemma init_truthy:
  assumes "init getenv w = (Inr u, c', w')"
  shows "truthy (access_token c')"
  using assms ensure_token_shape
    [of "\<lparr>client_id = getenv ''BOLT_CLIENT_ID'', client_secret = getenv ''BOLT_CLIENT_SECRET'',
          base_url = getenv ''BOLT_API_URL'', access_token = JNull\<rparr>" w]
  by (simp add: init_def)

lemma init_string:
  assumes "init getenv w = (Inr u, c', w')" and "list_all grants_strings (pending w)"
  shows "nonempty_string (access_token c')"
proof -
  let ?c = "\<lparr>client_id = getenv ''BOLT_CLIENT_ID'', client_secret = getenv ''BOLT_CLIENT_SECRET'',
          base_url = getenv ''BOLT_API_URL'', access_token = JNull\<rparr>"
  from assms(1) ensure_token_shape [of ?c w] have "kept_or_granted ?c w c'"
    by (simp add: init_def)
  moreover have "c' \<noteq> ?c"
    using init_truthy [OF assms(1)] by auto
  ultimately show ?thesis
    using assms(2)
    by (auto simp: kept_or_granted_def list_ex_iff list_all_iff grants_strings_def
             split: option.splits)
qed

lemma ensure_token_fetches:
  assumes "\<not> truthy (access_token c)"
  shows "requests_during w (snd (snd (ensure_token c w))) = [token_request c]"
proof -
  obtain res where "get_access_token c w =
      (res, c, w\<lparr>pending := tl (pending w), sent := sent w @ [token_request c]\<rparr>)"
    using get_access_token_shape [of c w] by blast
  with assms show ?thesis
    by (cases res) (simp_all add: ensure_token_def requests_during_def)
qed

text \<open>
  C10, as the code has it. A construction that succeeds leaves a token that is true in
  Python's sense (not \<^verbatim>\<open>None\<close>, not empty). Every operation, whether it returns or
  raises, leaves the client as it was or with its token replaced by one that a response
  of the token endpoint granted; so a token that is true stays true through every call
  of the four methods and through the refresh check, also when the call fails.
  \<^verbatim>\<open>_ensure_token\<close> does nothing when the token is true; when it is false (\<^verbatim>\<open>None\<close>
  and the empty string are) it makes the token request and stores the granted token.
  When the token endpoint grants strings only, the token is a non-empty string after
  construction and stays one.
\<close>

theorem token_stays_valid:
  "(init getenv w = (Inr u, c', w') \<longrightarrow> truthy (access_token c'))
   \<and> (truthy (access_token c) \<longrightarrow>
        truthy (access_token (fst (snd (invoke mk call c w start_ts end_ts)))))
   \<and> (truthy (access_token c) \<longrightarrow>
        truthy (access_token (fst (snd (refresh_token_if_needed r c w)))))
   \<and> kept_or_granted c w (fst (snd (invoke mk call c w start_ts end_ts)))
   \<and> kept_or_granted c w (fst (snd (refresh_token_if_needed r c w)))
   \<and> kept_or_granted c w (fst (snd (ensure_token c w)))
   \<and> (truthy (access_token c) \<longrightarrow> ensure_token c w = (Inr (), c, w))
   \<and> \<not> truthy JNull \<and> \<not> truthy (JStr [])
   \<and> (\<not> truthy (access_token c) \<longrightarrow>
        requests_during w (snd (snd (ensure_token c w))) = [token_request c])
   \<and> (\<not> truthy (access_token c) \<and> pending w = g # rs \<and> granted g = Some t \<longrightarrow>
        ensure_token c w =
          (Inr (), c\<lparr>access_token := t\<rparr>,
           w\<lparr>pending := rs, sent := sent w @ [token_request c]\<rparr>))
   \<and> (init getenv w = (Inr u, c', w') \<and> list_all grants_strings (pending w) \<longrightarrow>
        nonempty_string (access_token c'))
   \<and> (nonempty_string (access_token c) \<and> list_all grants_strings (pending w) \<longrightarrow>
        nonempty_string (access_token (fst (snd (invoke mk call c w start_ts end_ts)))))"
proof -
  have 1: "\<not> truthy (access_token c) \<and> pending w = g # rs \<and> granted g = Some t \<longrightarrow>
        ensure_token c w =
          (Inr (), c\<lparr>access_token := t\<rparr>,
           w\<lparr>pending := rs, sent := sent w @ [token_request c]\<rparr>)"
    by (simp add: ensure_token_def get_access_token_granted)
  have 2: "truthy (access_token c) \<longrightarrow> ensure_token c w = (Inr (), c, w)"
    by (simp add: ensure_token_def)
  have 3: "kept_or_granted c w (fst (snd (refresh_token_if_needed r c w)))"
    "kept_or_granted c w (fst (snd (ensure_token c w)))"
    using refresh_shape [of c w r] ensure_token_shape [of c w] by simp_all
  have 4: "\<not> truthy JNull \<and> \<not> truthy (JStr [])"
    by simp
  from 1 2 3 4 init_truthy [of getenv w u c' w'] init_string [of getenv w u c' w']
    invoke_client [of c w mk call start_ts end_ts]
    kept_or_granted_truthy [of c w "fst (snd (invoke mk call c w start_ts end_ts))"]
    kept_or_granted_truthy [of c w "fst (snd (refresh_token_if_needed r c w))"]
    kept_or_granted_string [of c w "fst (snd (invoke mk call c w start_ts end_ts))"]
    ensure_token_fetches [of c w]
  show ?thesis by blast
qed

text \<open>
  Where the sentence of C10 fails as written: the token is whatever true value the
  endpoint sends under \<^verbatim>\<open>access_token\<close>. With the body \<^verbatim>\<open>{"access_token": 123}\<close> the
  construction succeeds and the token is the number 123, not a string.
\<close>

theorem token_stays_valid_counterexample:
  "init sample_env (sample_world [token_response (JInt 123)] (clock_at 0)) =
     (Inr (),
      \<lparr>client_id = Some ''BOLT_CLIENT_ID'', client_secret = Some ''BOLT_CLIENT_SECRET'',
       base_url = Some ''BOLT_API_URL'', access_token = JInt 123\<rparr>,
      (sample_world [] (clock_at 0))
        \<lparr>sent := [token_request
           \<lparr>client_id = Some ''BOLT_CLIENT_ID'', client_secret = Some ''BOLT_CLIENT_SECRET'',
            base_url = Some ''BOLT_API_URL'', access_token = JNull\<rparr>]\<rparr>)
   \<and> \<not> nonempty_string (JInt 123)"
  by (simp add: init_def ensure_token_def get_access_token_def http_post_def response_json_def
        sample_env_def sample_world_def token_response_def json_response_def)


theorem token_stays_valid_witness:
  "fst (init sample_env (sample_world [token_response (JStr ''T1'')] (clock_at 0))) = Inr ()
   \<and> truthy (access_token (fst (snd (init sample_env (sample_world [token_response (JStr ''T1'')] (clock_at 0))))))
   \<and> list_all grants_strings (pending (sample_world [token_response (JStr ''T1'')] (clock_at 0)))
   \<and> nonempty_string (access_token (fst (snd (init sample_env (sample_world [token_response (JStr ''T1'')] (clock_at 0))))))
   \<and> truthy (access_token sample_client)
   \<and> nonempty_string (access_token sample_client)
   \<and> truthy (access_token (fst (snd (get_drivers keep_fields sample_client
        (sample_world [html_response 401, token_response (JStr ''T1''), html_response 401] (clock_at 0))
        0 10 7 (EnumMember active) None None))))
   \<and> nonempty_string (access_token (fst (snd (get_drivers keep_fields sample_client
        (sample_world [html_response 401, token_response (JStr ''T1''), html_response 401] (clock_at 0))
        0 10 7 (EnumMember active) None None))))
   \<and> truthy (access_token (fst (snd (refresh_token_if_needed (html_response 401) sample_client (sample_world [token_response (JStr ''T1'')] (clock_at 0))))))
   \<and> ensure_token sample_client (sample_world [token_response (JStr ''T1'')] (clock_at 0)) = (Inr (), sample_client, (sample_world [token_response (JStr ''T1'')] (clock_at 0)))
   \<and> \<not> truthy (access_token (sample_client\<lparr>access_token := JStr []\<rparr>))
   \<and> requests_during (sample_world [token_response (JStr ''T1'')] (clock_at 0)) (snd (snd (ensure_token (sample_client\<lparr>access_token := JStr []\<rparr>) (sample_world [token_response (JStr ''T1'')] (clock_at 0))))) =
       [token_request (sample_client\<lparr>access_token := JStr []\<rparr>)]
   \<and> fst (snd (ensure_token (sample_client\<lparr>access_token := JStr []\<rparr>) (sample_world [token_response (JStr ''T1'')] (clock_at 0)))) =
       sample_client\<lparr>access_token := JStr ''T1''\<rparr>"
proof -
  let ?w0 = "(sample_world [token_response (JStr ''T1'')] (clock_at 0))"
  let ?w1 = "(sample_world [html_response 401, token_response (JStr ''T1''), html_response 401] (clock_at 0))"
  let ?c0 = "\<lparr>client_id = Some ''BOLT_CLIENT_ID'', client_secret = Some ''BOLT_CLIENT_SECRET'',
       base_url = Some ''BOLT_API_URL'', access_token = JNull\<rparr>"
  let ?call = "GetDrivers 0 10 7 (EnumMember active)"
  let ?e = "sample_client\<lparr>access_token := JStr []\<rparr>"
  have i: "init sample_env ?w0 =
      (Inr (), ?c0\<lparr>access_token := JStr ''T1''\<rparr>,
       ?w0\<lparr>pending := [], sent := sent ?w0 @ [token_request ?c0]\<rparr>)"
    by (simp add: init_def ensure_token_def get_access_token_def http_post_def response_json_def
          sample_env_def sample_world_def token_response_def json_response_def)
  have g: "granted (token_response (JStr ''T1'')) = Some (JStr ''T1'')"
    by (simp add: granted_def token_response_def json_response_def)
  have gs: "list_all grants_strings (pending ?w0)" "list_all grants_strings (pending ?w1)"
    by (simp_all add: sample_world_def grants_strings_def granted_def token_response_def
          json_response_def html_response_def)
  have h: "truthy (access_token sample_client)" "nonempty_string (access_token sample_client)"
    "\<not> truthy (access_token ?e)"
    by (simp_all add: sample_client_def)
  have p: "pending ?w0 = [token_response (JStr ''T1'')]"
    by (simp add: sample_world_def)
  note T = token_stays_valid [where getenv = sample_env and w = ?w0 and u = "()"
      and c' = "?c0\<lparr>access_token := JStr ''T1''\<rparr>"
      and w' = "?w0\<lparr>pending := [], sent := sent ?w0 @ [token_request ?c0]\<rparr>"]
  have a: "truthy (access_token (?c0\<lparr>access_token := JStr ''T1''\<rparr>))"
    "nonempty_string (access_token (?c0\<lparr>access_token := JStr ''T1''\<rparr>))"
    using T i gs by blast+
  have b: "truthy (access_token (fst (snd (invoke keep_fields ?call sample_client ?w1 None None))))"
    "nonempty_string (access_token (fst (snd (invoke keep_fields ?call sample_client ?w1 None None))))"
    using token_stays_valid [where c = sample_client and w = ?w1 and mk = keep_fields
        and call = ?call and start_ts = None and end_ts = None] h gs
    by blast+
  have c: "truthy (access_token (fst (snd (refresh_token_if_needed (html_response 401)
             sample_client ?w0))))"
    "ensure_token sample_client ?w0 = (Inr (), sample_client, ?w0)"
    using token_stays_valid [where c = sample_client and w = ?w0 and r = "html_response 401"] h
    by blast+
  have d: "requests_during ?w0 (snd (snd (ensure_token ?e ?w0))) = [token_request ?e]"
    "ensure_token ?e ?w0 =
       (Inr (), ?e\<lparr>access_token := JStr ''T1''\<rparr>,
        ?w0\<lparr>pending := [], sent := sent ?w0 @ [token_request ?e]\<rparr>)"
    using token_stays_valid [where c = ?e and w = ?w0 and g = "token_response (JStr ''T1'')"
        and rs = "[]" and t = "JStr ''T1''"] h p g
    by blast+
  from i a b c d h gs show ?thesis
    by simp
qed

section \<open>Validation of records\<close>






























end
